theory Spec2Isabelle
  imports Main "HOL-Library.AList"
begin

section \<open>Text: Python string primitives used by the scripts\<close>

text \<open>
  Python strings are sequences of code points. The scripts' text is modelled as
  \<^typ>\<open>string\<close> over the code points below 256; the three characters of the
  narrative format that lie beyond that range take the (otherwise unused) positions they
  have in Windows-1252: \<open>0x95\<close> is the bullet U+2022, \<open>0x96\<close> the en dash U+2013 and
  \<open>0x97\<close> the em dash U+2014. Neither these three nor the control characters whose
  positions they take are white space, digits, cased letters or line breaks, so every
  character class the scripts test is unchanged.
\<close>

definition BULLET :: char where "BULLET = CHR 0x95"
definition EN_DASH :: char where "EN_DASH = CHR 0x96"
definition EM_DASH :: char where "EM_DASH = CHR 0x97"

definition isspace :: "char \<Rightarrow> bool" where
  \<comment> \<open>\<open>str.isspace\<close> and the regular expression class \<open>\s\<close> on code points below 256\<close>
  "isspace c = (let n = (of_char c :: nat) in
      (9 \<le> n \<and> n \<le> 13) \<or> (28 \<le> n \<and> n \<le> 32) \<or> n = 133 \<or> n = 160)"

definition lstrip :: "string \<Rightarrow> string" where
  "lstrip s = dropWhile isspace s"

definition rstrip :: "string \<Rightarrow> string" where
  "rstrip s = rev (dropWhile isspace (rev s))"

definition strip :: "string \<Rightarrow> string" where
  \<comment> \<open>\<open>s.strip()\<close>\<close>
  "strip s = rstrip (lstrip s)"

definition rstrip_dot :: "string \<Rightarrow> string" where
  \<comment> \<open>\<open>s.rstrip('.')\<close>\<close>
  "rstrip_dot s = rev (dropWhile (\<lambda>c. c = CHR ''.'') (rev s))"

definition isdigit :: "char \<Rightarrow> bool" where
  \<comment> \<open>the regular expression class \<open>\d\<close>: below 256 the decimal digits are \<open>0\<close> to \<open>9\<close>\<close>
  "isdigit c = (let n = (of_char c :: nat) in 48 \<le> n \<and> n \<le> 57)"

definition NEWLINE :: char where "NEWLINE = CHR 0x0A"

definition py_int :: "string \<Rightarrow> int" where
  \<comment> \<open>\<open>int(s)\<close> on a string of decimal digits, without the interpreter's limit on their
      number\<close>
  "py_int ds = foldl (\<lambda>n c. 10 * n + (int (of_char c) - 48)) 0 ds"

fun split_on :: "char \<Rightarrow> string \<Rightarrow> string list" where
  \<comment> \<open>\<open>s.split(sep)\<close> for a separator of one character\<close>
  "split_on sep [] = [[]]"
| "split_on sep (c # cs) =
     (if c = sep then [] # split_on sep cs
      else (case split_on sep cs of p # ps \<Rightarrow> (c # p) # ps | [] \<Rightarrow> [[c]]))"

subsection \<open>The regular expressions of the record builders\<close>

text \<open>
  Python's backtracking matcher is written out for each pattern. \<open>.\<close> matches any
  character but a line break (these patterns are compiled without \<open>DOTALL\<close>); \<open>$\<close>
  matches at the end of the text and before a final line break; a lazy group \<open>(.+?)\<close>
  takes one character and then grows by one character at a time until the rest of the
  pattern matches. \<open>\s*\<close> and \<open>\d+\<close> are greedy, and in these patterns the character that
  must follow them is outside their class, so giving characters back never helps.
\<close>

definition at_end :: "string \<Rightarrow> bool" where
  \<comment> \<open>\<open>$\<close>\<close>
  "at_end r = (r = [] \<or> r = [NEWLINE])"

definition digits_close :: "string \<Rightarrow> string option" where
  \<comment> \<open>\<open>(\d+)\)$\<close>\<close>
  "digits_close r =
     (case dropWhile isdigit r of
        c # r' \<Rightarrow> if takeWhile isdigit r \<noteq> [] \<and> c = CHR '')'' \<and> at_end r'
                  then Some (takeWhile isdigit r) else None
      | [] \<Rightarrow> None)"

definition x_digits_close :: "string \<Rightarrow> string option" where
  \<comment> \<open>\<open>x(\d+)\)$\<close>\<close>
  "x_digits_close r =
     (case r of c # r' \<Rightarrow> if c = CHR ''x'' then digits_close r' else None | [] \<Rightarrow> None)"

fun lazy_close :: "string \<Rightarrow> string \<Rightarrow> string option" where
  \<comment> \<open>\<open>(.+?)\)$\<close>, the group read so far in the first argument\<close>
  "lazy_close acc [] = None"
| "lazy_close acc (c # r) =
     (if acc \<noteq> [] \<and> c = CHR '')'' \<and> at_end r then Some acc
      else if c = NEWLINE then None
      else lazy_close (acc @ [c]) r)"

definition open_group :: "(string \<Rightarrow> 'a option) \<Rightarrow> string \<Rightarrow> 'a option" where
  \<comment> \<open>\<open>\s*\(\<close> and then the pattern of the group\<close>
  "open_group inner s =
     (case dropWhile isspace s of
        c # r \<Rightarrow> if c = CHR ''('' then inner r else None
      | [] \<Rightarrow> None)"

fun paren_suffix :: "(string \<Rightarrow> 'a option) \<Rightarrow> string \<Rightarrow> string \<Rightarrow> (string \<times> 'a) option" where
  \<comment> \<open>\<open>^(.+?)\s*\( ... \)$\<close>, the first group read so far in the second argument\<close>
  "paren_suffix inner acc [] = None"
| "paren_suffix inner acc (c # r) =
     (case (if acc = [] then None else open_group inner (c # r)) of
        Some g \<Rightarrow> Some (acc, g)
      | None \<Rightarrow> if c = NEWLINE then None else paren_suffix inner (acc @ [c]) r)"

definition match_num :: "string \<Rightarrow> (string \<times> string) option" where
  \<comment> \<open>\<open>re.match(r'^(.+?)\s*\((\d+)\)$', name)\<close>\<close>
  "match_num name = paren_suffix digits_close [] name"

definition match_x :: "string \<Rightarrow> (string \<times> string) option" where
  \<comment> \<open>\<open>re.match(r'^(.+?)\s*\(x(\d+)\)$', name)\<close>\<close>
  "match_x name = paren_suffix x_digits_close [] name"

definition match_paren :: "string \<Rightarrow> (string \<times> string) option" where
  \<comment> \<open>\<open>re.match(r'^(.+?)\s*\((.+?)\)$', name)\<close>\<close>
  "match_paren name = paren_suffix (lazy_close []) [] name"

definition search_digits :: "string \<Rightarrow> string option" where
  \<comment> \<open>\<open>re.search(r'(\d+)', inner)\<close>: the first run of digits\<close>
  "search_digits s =
     (case dropWhile (\<lambda>c. \<not> isdigit c) s of
        [] \<Rightarrow> None
      | c # r \<Rightarrow> Some (takeWhile isdigit (c # r)))"

fun search_adv :: "string \<Rightarrow> string \<Rightarrow> (string \<times> string) option" where
  \<comment> \<open>\<open>re.search(r'\+(\d+)$', entry)\<close>: the text before the leftmost match, and the group\<close>
  "search_adv pre [] = None"
| "search_adv pre (c # r) =
     (if c = CHR ''+'' \<and> takeWhile isdigit r \<noteq> [] \<and> at_end (dropWhile isdigit r)
      then Some (pre, takeWhile isdigit r)
      else search_adv (pre @ [c]) r)"

section \<open>add-actor-items.py: the entry tokenizer\<close>

text \<open>
  \<open>split_respecting_parens\<close>: the \<open>for\<close> loop over the characters, with its three
  variables \<open>result\<close>, \<open>depth\<close> and \<open>current\<close> passed along; the \<open>continue\<close> of the
  comma branch is the branch that does not append the character.
\<close>

fun split_loop :: "string \<Rightarrow> string list \<Rightarrow> int \<Rightarrow> string \<Rightarrow> string list" where
  "split_loop [] result depth current =
     (if current \<noteq> [] then result @ [strip current] else result)"
| "split_loop (c # cs) result depth current =
     (if c = CHR ''('' then split_loop cs result (depth + 1) (current @ [c])
      else if c = CHR '')'' then split_loop cs result (depth - 1) (current @ [c])
      else if c = CHR '','' \<and> depth = 0 then split_loop cs (result @ [strip current]) depth []
      else split_loop cs result depth (current @ [c]))"

definition split_respecting_parens :: "string \<Rightarrow> string list" where
  "split_respecting_parens text = filter (\<lambda>r. r \<noteq> []) (split_loop text [] 0 [])"

text \<open>
  The nesting depth in the words of the specification: the number of opening parentheses
  minus the number of closing ones.
\<close>

fun paren_depth :: "string \<Rightarrow> int" where
  "paren_depth [] = 0"
| "paren_depth (c # cs) =
     (if c = CHR ''('' then 1 else if c = CHR '')'' then - 1 else 0) + paren_depth cs"

section \<open>Documents\<close>

text \<open>
  The scripts work on the values \<open>json.load\<close> returns: \<open>None\<close>, booleans, numbers,
  strings, lists and dictionaries. A dictionary is an association list in insertion order
  (the order \<open>json.dump\<close> writes), with the operations Python's \<open>dict\<close> offers. Numbers
  are integers; no script computes with fractions.
\<close>

datatype json =
    JNull
  | JBool bool
  | JNum int
  | JStr string
  | JArr "json list"
  | JObj "(string \<times> json) list"

type_synonym dict = "(string \<times> json) list"

definition dict_get :: "(string \<times> 'v) list \<Rightarrow> string \<Rightarrow> 'v \<Rightarrow> 'v" where
  \<comment> \<open>\<open>d.get(k, default)\<close>\<close>
  "dict_get d k dflt = (case map_of d k of Some v \<Rightarrow> v | None \<Rightarrow> dflt)"

definition dict_has :: "(string \<times> 'v) list \<Rightarrow> string \<Rightarrow> bool" where
  \<comment> \<open>\<open>k in d\<close>\<close>
  "dict_has d k = (map_of d k \<noteq> None)"

definition dict_set :: "(string \<times> 'v) list \<Rightarrow> string \<Rightarrow> 'v \<Rightarrow> (string \<times> 'v) list" where
  \<comment> \<open>\<open>d[k] = v\<close>: a key that is present keeps its place, a new key goes last\<close>
  "dict_set d k v = AList.update k v d"

definition dict_pop :: "(string \<times> 'v) list \<Rightarrow> string \<Rightarrow> (string \<times> 'v) list" where
  \<comment> \<open>the dictionary after \<open>d.pop(k, default)\<close>\<close>
  "dict_pop d k = AList.delete k d"

definition setdefault :: "(string \<times> 'v) list \<Rightarrow> string \<Rightarrow> 'v \<Rightarrow> (string \<times> 'v) list" where
  \<comment> \<open>the dictionary after \<open>d.setdefault(k, v)\<close>\<close>
  "setdefault d k v = (if dict_has d k then d else dict_set d k v)"

fun truthy :: "json \<Rightarrow> bool" where
  \<comment> \<open>the truth value Python gives a value in \<open>if\<close>, \<open>not\<close> and \<open>bool()\<close>\<close>
  "truthy JNull = False"
| "truthy (JBool b) = b"
| "truthy (JNum n) = (n \<noteq> 0)"
| "truthy (JStr s) = (s \<noteq> [])"
| "truthy (JArr xs) = (xs \<noteq> [])"
| "truthy (JObj d) = (d \<noteq> [])"

definition field :: "json \<Rightarrow> string \<Rightarrow> json option" where
  \<comment> \<open>the value under a key of a dictionary, for reading results\<close>
  "field j k = (case j of JObj d \<Rightarrow> map_of d k | _ \<Rightarrow> None)"

definition sys_field :: "json \<Rightarrow> string \<Rightarrow> json option" where
  \<comment> \<open>\<open>item["system"][k]\<close>\<close>
  "sys_field j k = (case field j ''system'' of Some s \<Rightarrow> field s k | None \<Rightarrow> None)"

section \<open>add-actor-items.py: the record builders\<close>

definition SKILL_CHARS :: "(string \<times> string) list" where
  "SKILL_CHARS =
    [(''Acrobatics'', ''ag''), (''Athletics'', ''s''), (''Awareness'', ''per''),
     (''Charm'', ''fel''), (''Command'', ''fel''), (''Commerce'', ''int''),
     (''Common Lore'', ''int''), (''Deceive'', ''fel''), (''Dodge'', ''ag''),
     (''Forbidden Lore'', ''int''), (''Inquiry'', ''fel''), (''Interrogation'', ''wp''),
     (''Intimidate'', ''s''), (''Linguistics'', ''int''), (''Logic'', ''int''),
     (''Medicae'', ''int''), (''Navigate'', ''int''), (''Operate'', ''ag''),
     (''Parry'', ''ws''), (''Psyniscience'', ''per''), (''Scholastic Lore'', ''int''),
     (''Scrutiny'', ''per''), (''Security'', ''int''), (''Sleight of Hand'', ''ag''),
     (''Stealth'', ''ag''), (''Survival'', ''per''), (''Tech-Use'', ''int''),
     (''Trade'', ''int'')]"

definition TRAIT_CATEGORIES :: "(string \<times> string) list" where
  "TRAIT_CATEGORIES =
    [(''Fear'', ''mental''), (''Dark Sight'', ''physical''),
     (''Unnatural Strength'', ''physical''), (''Unnatural Toughness'', ''physical''),
     (''Unnatural Willpower'', ''mental''), (''Unnatural Agility'', ''physical''),
     (''From Beyond'', ''warp''), (''Warp-Touched'', ''warp''), (''Warp Instability'', ''warp''),
     (''Regeneration'', ''physical''), (''Machine'', ''physical''),
     (''Size'', ''physical''), (''Flyer'', ''movement''),
     (''Bestial'', ''mental''), (''Quadruped'', ''movement''),
     (''Daemonic'', ''warp''), (''Fearless'', ''mental''),
     (''Mindless'', ''mental''), (''Shambling'', ''movement''), (''Undying'', ''warp''),
     (''Natural Armor'', ''physical''), (''Natural Armour'', ''physical''),
     (''Psyker'', ''warp''), (''Warp Seer'', ''warp''),
     (''Mechanicus Implants'', ''physical''), (''Multiple Arms'', ''physical''),
     (''Latent Psyker'', ''warp''), (''Barovus Native'', ''physical''),
     (''Disturbing'', ''mental''), (''Warp-Animated'', ''warp'')]"

definition POWER_DISCIPLINES :: "(string \<times> string) list" where
  "POWER_DISCIPLINES =
    [(''Warp Fire'', ''Pyromancy''),
     (''Telekinesis'', ''Telekinesis''),
     (''Telekinetic Control'', ''Telekinesis''),
     (''Telekinetic Storm'', ''Telekinesis''),
     (''Domination'', ''Telepathy''),
     (''Psychic Shriek'', ''Telepathy''),
     (''Flesh Warp'', ''Biomancy''),
     (''Warp Storm'', ''Warp''),
     (''Warp Lightning'', ''Warp''),
     (''Iron Arm'', ''Biomancy''),
     (''Psychic Scream'', ''Telepathy''),
     (''True Divination'', ''Divination'')]"

subsection \<open>The identifier counter\<close>

text \<open>
  \<open>_id_counter\<close> is a global that \<open>next_id\<close> increments; every builder takes the
  counter and returns it with its result.
\<close>

fun dec :: "nat \<Rightarrow> string" where
  \<comment> \<open>the decimal digits of a number\<close>
  "dec n = (if n < 10 then [char_of (48 + n)] else dec (n div 10) @ [char_of (48 + n mod 10)])"

definition zfill4 :: "nat \<Rightarrow> string" where
  \<comment> \<open>the format \<open>04d\<close>\<close>
  "zfill4 n = replicate (4 - length (dec n)) (CHR ''0'') @ dec n"

definition next_id :: "nat \<Rightarrow> string \<times> nat" where
  "next_id ctr = (''ski11ta1ent'' @ zfill4 (ctr + 1), ctr + 1)"

subsection \<open>make_skill\<close>

definition skill_item :: "string \<Rightarrow> string \<Rightarrow> string \<Rightarrow> int \<Rightarrow> bool \<Rightarrow> string \<Rightarrow> json" where
  \<comment> \<open>the dictionary literal of the three \<open>return\<close>s of \<open>make_skill\<close>\<close>
  "skill_item ident name linked advancement specialist spec =
     JObj [(''_id'', JStr ident),
           (''name'', JStr name),
           (''type'', JStr ''skill''),
           (''img'', JStr ''systems/dh2e/icons/items/skill.svg''),
           (''system'', JObj [(''description'', JStr []),
                             (''linkedCharacteristic'', JStr linked),
                             (''advancement'', JNum advancement),
                             (''isSpecialist'', JBool specialist),
                             (''specialization'', JStr spec)])]"

fun skill_specs :: "string \<Rightarrow> int \<Rightarrow> string list \<Rightarrow> nat \<Rightarrow> json list \<times> nat" where
  \<comment> \<open>\<open>for spec in spec_text.split(',')\<close>\<close>
  "skill_specs base_name advancement [] ctr = ([], ctr)"
| "skill_specs base_name advancement (s # specs) ctr =
     (let spec = strip s;
          full_name = base_name @ '' ('' @ spec @ '')'';
          linked = dict_get SKILL_CHARS base_name ''int'';
          (ident, ctr1) = next_id ctr;
          (items, ctr2) = skill_specs base_name advancement specs ctr1
      in (skill_item ident full_name linked advancement True spec # items, ctr2))"

definition skill_advancement :: "string \<Rightarrow> int \<times> string" where
  \<comment> \<open>the advancement and the name left once the \<open>+N\<close> suffix is taken off\<close>
  "skill_advancement entry =
     (case search_adv [] entry of
        Some (pre, ds) \<Rightarrow> (py_int ds div 10, strip pre)
      | None \<Rightarrow> (0, entry))"

definition make_skill :: "string \<Rightarrow> nat \<Rightarrow> json list \<times> nat" where
  "make_skill entry0 ctr =
     (let entry = rstrip_dot (strip entry0);
          (advancement, name) = skill_advancement entry
      in case match_paren name of
           Some (g1, g2) \<Rightarrow>
             (let base_name = strip g1; spec_text = strip g2
              in if CHR '','' \<in> set spec_text
                 then skill_specs base_name advancement (split_on (CHR '','') spec_text) ctr
                 else (let linked = dict_get SKILL_CHARS base_name ''int'';
                           (ident, ctr1) = next_id ctr
                       in ([skill_item ident name linked advancement True spec_text], ctr1)))
         | None \<Rightarrow>
             (let linked = dict_get SKILL_CHARS name ''int'';
                  (ident, ctr1) = next_id ctr
              in ([skill_item ident name linked advancement False []], ctr1)))"

subsection \<open>make_talent\<close>

definition make_talent :: "string \<Rightarrow> nat \<Rightarrow> json \<times> nat" where
  "make_talent entry ctr =
     (let name = rstrip_dot (strip entry);
          specialist = (match_paren name \<noteq> None);
          (ident, ctr1) = next_id ctr
      in (JObj [(''_id'', JStr ident),
                (''name'', JStr name),
                (''type'', JStr ''talent''),
                (''img'', JStr ''systems/dh2e/icons/items/talent.svg''),
                (''system'', JObj [(''description'', JStr []),
                                  (''tier'', JNum 1),
                                  (''aptitudes'', JArr []),
                                  (''prerequisites'', JStr []),
                                  (''specialist'', JBool specialist)])], ctr1))"

subsection \<open>make_trait\<close>

definition trait_rating :: "string \<Rightarrow> bool \<times> int \<times> string" where
  \<comment> \<open>\<open>has_rating\<close>, \<open>rating\<close> and \<open>category\<close> as the nested \<open>if\<close>s of \<open>make_trait\<close> set them\<close>
  "trait_rating name =
     (case match_num name of
        Some (g1, g2) \<Rightarrow> (True, py_int g2, dict_get TRAIT_CATEGORIES (strip g1) [])
      | None \<Rightarrow>
         (case match_x name of
            Some (g1, g2) \<Rightarrow> (True, py_int g2, dict_get TRAIT_CATEGORIES (strip g1) [])
          | None \<Rightarrow>
             (case match_paren name of
                Some (g1, g2) \<Rightarrow>
                  (let base = strip g1; inner = strip g2;
                       category = dict_get TRAIT_CATEGORIES base []
                   in case search_digits inner of
                        Some ds \<Rightarrow> (True, py_int ds, category)
                      | None \<Rightarrow> (False, 0, category))
              | None \<Rightarrow> (False, 0, dict_get TRAIT_CATEGORIES name []))))"

definition make_trait :: "string \<Rightarrow> string \<Rightarrow> nat \<Rightarrow> json \<times> nat" where
  "make_trait entry description ctr =
     (let name = rstrip_dot (strip entry);
          (has_rating, rating, category) = trait_rating name;
          (ident, ctr1) = next_id ctr
      in (JObj [(''_id'', JStr ident),
                (''name'', JStr name),
                (''type'', JStr ''trait''),
                (''img'', JStr ''systems/dh2e/icons/default-icons/trait.svg''),
                (''system'', JObj [(''description'', JStr description),
                                  (''rules'', JArr []),
                                  (''hasRating'', JBool has_rating),
                                  (''rating'', JNum rating),
                                  (''category'', JStr category)])], ctr1))"

subsection \<open>make_power\<close>

definition make_power ::
  "string \<Rightarrow> string \<Rightarrow> string \<Rightarrow> string \<Rightarrow> string \<Rightarrow> json \<Rightarrow> int \<Rightarrow> nat \<Rightarrow> json \<times> nat" where
  "make_power name description discipline action range_str sustained focus_mod ctr =
     (let (ident, ctr1) = next_id ctr
      in (JObj [(''_id'', JStr ident),
                (''name'', JStr name),
                (''type'', JStr ''power''),
                (''img'', JStr ''systems/dh2e/icons/items/power.svg''),
                (''system'', JObj [(''description'', JStr description),
                                  (''discipline'', JStr discipline),
                                  (''cost'', JNum 200),
                                  (''prerequisites'', JStr []),
                                  (''focusTest'', JStr ''wp''),
                                  (''focusModifier'', JNum focus_mod),
                                  (''range'', JStr range_str),
                                  (''sustained'', sustained),
                                  (''action'', JStr action),
                                  (''subtype'', JStr []),
                                  (''opposed'', JBool False)])], ctr1))"

section \<open>refactor-data.py\<close>

datatype py_error = AttributeError | TypeError | KeyError | ValueError

subsection \<open>slugify and parse_trait_name\<close>

definition lower_char :: "char \<Rightarrow> char" where
  \<comment> \<open>\<open>str.lower\<close> on one code point below 256\<close>
  "lower_char c = (let n = (of_char c :: nat) in
      if (65 \<le> n \<and> n \<le> 90) \<or> (192 \<le> n \<and> n \<le> 222 \<and> n \<noteq> 215) then char_of (n + 32) else c)"

definition lower :: "string \<Rightarrow> string" where
  "lower s = map lower_char s"

definition slug_char :: "char \<Rightarrow> bool" where
  \<comment> \<open>the class \<open>[a-z0-9]\<close>\<close>
  "slug_char c = (let n = (of_char c :: nat) in (97 \<le> n \<and> n \<le> 122) \<or> (48 \<le> n \<and> n \<le> 57))"

function slug_sub :: "string \<Rightarrow> string" where
  \<comment> \<open>\<open>re.sub(r'[^a-z0-9]+', '-', s)\<close>: every maximal run outside the class becomes one hyphen\<close>
  "slug_sub [] = []"
| "slug_sub (c # cs) =
     (if slug_char c then c # slug_sub cs
      else CHR ''-'' # slug_sub (dropWhile (\<lambda>x. \<not> slug_char x) cs))"
  by pat_completeness auto
termination
  by (relation "measure length") (auto simp: length_dropWhile_le less_Suc_eq_le)

definition strip_hyphen :: "string \<Rightarrow> string" where
  \<comment> \<open>\<open>s.strip('-')\<close>\<close>
  "strip_hyphen s =
     rev (dropWhile (\<lambda>c. c = CHR ''-'') (rev (dropWhile (\<lambda>c. c = CHR ''-'') s)))"

definition slugify :: "string \<Rightarrow> string" where
  "slugify name = strip_hyphen (slug_sub (lower name))"

definition parse_trait_name :: "string \<Rightarrow> string \<times> int" where
  "parse_trait_name name =
     (case match_num name of
        Some (g1, g2) \<Rightarrow> (strip g1, py_int g2)
      | None \<Rightarrow>
         (case match_x name of
            Some (g1, g2) \<Rightarrow> (strip g1, py_int g2)
          | None \<Rightarrow>
             (case match_paren name of
                Some (g1, g2) \<Rightarrow>
                  (let base = strip g1; inner = strip g2
                   in (base, case search_digits inner of Some ds \<Rightarrow> py_int ds | None \<Rightarrow> 0))
              | None \<Rightarrow> (strip name, 0))))"

subsection \<open>get_trait_rules_and_immunities\<close>

definition match_size :: "string \<Rightarrow> string option" where
  \<comment> \<open>\<open>re.match(r'^Size\s*\((.+?)\)$', name)\<close>\<close>
  "match_size name =
     (if take 4 name = ''Size'' then open_group (lazy_close []) (drop 4 name) else None)"

definition roll_option :: "string \<Rightarrow> json" where
  \<comment> \<open>\<open>{"key": "RollOption", "option": opt}\<close>\<close>
  "roll_option opt = JObj [(''key'', JStr ''RollOption''), (''option'', JStr opt)]"

definition flat_modifier :: "string \<Rightarrow> json" where
  \<comment> \<open>\<open>{"key": "FlatModifier", "domain": domain, "value": "rating"}\<close>\<close>
  "flat_modifier domain =
     JObj [(''key'', JStr ''FlatModifier''), (''domain'', JStr domain), (''value'', JStr ''rating'')]"

definition adjust_toughness :: json where
  \<comment> \<open>\<open>{"key": "AdjustToughness", "mode": "add", "value": "rating"}\<close>\<close>
  "adjust_toughness =
     JObj [(''key'', JStr ''AdjustToughness''), (''mode'', JStr ''add''), (''value'', JStr ''rating'')]"

definition resistance :: "string \<Rightarrow> json" where
  \<comment> \<open>\<open>{"key": "Resistance", "damageType": t, "mode": "half"}\<close>\<close>
  "resistance t =
     JObj [(''key'', JStr ''Resistance''), (''damageType'', JStr t), (''mode'', JStr ''half'')]"

definition get_trait_rules_and_immunities :: "string \<Rightarrow> json \<Rightarrow> json list \<times> string list" where
  \<comment> \<open>the parameter \<open>rating\<close> is reassigned from the parsed name and then never read\<close>
  "get_trait_rules_and_immunities name rating0 =
     (let base = fst (parse_trait_name name);
          parsed_rating = snd (parse_trait_name name);
          rating = (if parsed_rating \<noteq> 0 then JNum parsed_rating else rating0)
      in if base = ''Fear'' then ([roll_option ''self:fear''], [])
         else if base = ''Dark Sight'' then ([roll_option ''self:dark-sight''], [])
         else if base = ''Unnatural Strength'' then ([flat_modifier ''damage''], [])
         else if base = ''Unnatural Toughness'' then ([adjust_toughness], [])
         else if base = ''Unnatural Willpower'' then ([flat_modifier ''characteristic:wp''], [])
         else if base = ''Unnatural Agility'' then ([flat_modifier ''characteristic:ag''], [])
         else if base = ''From Beyond''
           then ([roll_option ''self:from-beyond''], [''Fear'', ''Pinning'', ''Insanity''])
         else if base = ''Regeneration'' then ([roll_option ''self:regeneration''], [])
         else if base \<in> set [''Natural Armor'', ''Natural Armour'']
           then ([flat_modifier ''armour''], [])
         else if base = ''Daemonic''
           then ([adjust_toughness, roll_option ''self:daemonic''],
                 [''Fear'', ''Pinning'', ''Disease'', ''Poison''])
         else if base = ''Machine''
           then ([flat_modifier ''armour'', roll_option ''self:machine''],
                 [''Fear'', ''Pinning'', ''Disease'', ''Poison''])
         else if base = ''Mindless''
           then ([roll_option ''self:mindless''], [''Fear'', ''Pinning'', ''psychic-mind''])
         else if base = ''Fearless'' then ([roll_option ''self:fearless''], [''Fear''])
         else if base = ''Stuff of Nightmares''
           then ([roll_option ''self:stuff-of-nightmares''], [''critical'', ''bleeding'', ''stun''])
         else if base = ''Incorporeal''
           then ([resistance ''impact'', resistance ''rending'', resistance ''explosive'',
                  roll_option ''self:incorporeal''], [])
         else if base = ''Brutal Charge''
           then ([JObj [(''key'', JStr ''FlatModifier''), (''domain'', JStr ''damage''),
                        (''value'', JStr ''rating''),
                        (''predicate'', JArr [JStr ''action:charge''])]], [])
         else if base = ''Size''
           then (let cat = (case match_size name of Some g \<Rightarrow> slugify g | None \<Rightarrow> ''average'')
                 in ([roll_option (''self:size:'' @ cat)], []))
         else if base \<in> set [''Flyer'', ''Toxic'', ''Shambling'', ''Quadruped'', ''Bestial'',
                               ''Undying'', ''Warp Instability'', ''Warp-Touched'',
                               ''Multiple Arms'', ''Mechanicus Implants'', ''Psyker'',
                               ''Warp Seer'', ''Disturbing'', ''Warp-Animated'']
           then ([roll_option (''self:'' @ slugify base)], [])
         else ([roll_option (''self:'' @ slugify base)], []))"

definition refactor_trait :: "dict \<Rightarrow> string \<Rightarrow> dict" where
  "refactor_trait sys name =
     (let rating = dict_get sys ''rating'' (JNum 0);
          (rules, immunities) = get_trait_rules_and_immunities name rating;
          sys1 = setdefault sys ''immunities'' (JArr []);
          sys2 = (if immunities \<noteq> [] then dict_set sys1 ''immunities'' (JArr (map JStr immunities))
                  else sys1)
      in if rules \<noteq> [] then dict_set sys2 ''rules'' (JArr rules) else sys2)"

subsection \<open>refactor_weapon\<close>

text \<open>
  The function mutates the dictionary it is given; the model returns the dictionary after
  the call. The one operation that can raise is the comparison \<open>max_val > 0\<close>, which
  Python evaluates only when \<open>is_ranged\<close> holds and refuses for a value that is not a
  number.
\<close>

fun gt_zero :: "json \<Rightarrow> py_error + bool" where
  \<comment> \<open>\<open>v > 0\<close>\<close>
  "gt_zero (JNum n) = Inr (n > 0)"
| "gt_zero (JBool b) = Inr b"
| "gt_zero _ = Inl TypeError"

definition infer_load_type :: "dict \<Rightarrow> py_error + dict" where
  \<comment> \<open>\<open>if "loadType" not in sys: ...\<close>\<close>
  "infer_load_type sys =
     (if \<not> dict_has sys ''loadType'' then
        (let mag = dict_get sys ''magazine'' (JObj []);
             is_ranged = (dict_get sys ''class'' JNull \<in> set [JStr ''ranged'', JStr ''thrown'']);
             max_val = (case mag of JObj m \<Rightarrow> dict_get m ''max'' (JNum 0) | _ \<Rightarrow> JNum 0)
         in if is_ranged then
              (case gt_zero max_val of
                 Inl e \<Rightarrow> Inl e
               | Inr b \<Rightarrow> Inr (dict_set sys ''loadType'' (JStr (if b then ''magazine'' else []))))
            else Inr (dict_set sys ''loadType'' (JStr [])))
      else Inr sys)"

definition fix_melee_rof :: "dict \<Rightarrow> dict" where
  \<comment> \<open>\<open>if sys.get("class") == "melee": ...\<close>; a \<open>rof\<close> that is absent is a fresh \<open>{}\<close>,
      whose update is lost\<close>
  "fix_melee_rof sys =
     (if dict_get sys ''class'' JNull = JStr ''melee'' then
        (case map_of sys ''rof'' of
           Some (JObj rof) \<Rightarrow>
             if \<not> truthy (dict_get rof ''single'' JNull)
             then dict_set sys ''rof'' (JObj (dict_set rof ''single'' (JBool True)))
             else sys
         | _ \<Rightarrow> sys)
      else sys)"

definition weapon_defaults :: "dict \<Rightarrow> dict" where
  \<comment> \<open>the renaming of \<open>clip\<close> and the \<open>setdefault\<close> calls\<close>
  "weapon_defaults sys =
     (let sys1 = (if dict_has sys ''clip'' \<and> \<not> dict_has sys ''magazine''
                  then dict_set (dict_pop sys ''clip'') ''magazine'' (dict_get sys ''clip'' JNull)
                  else sys);
          sys2 = setdefault sys1 ''magazine'' (JObj [(''value'', JNum 0), (''max'', JNum 0)]);
          sys3 = setdefault sys2 ''craftsmanship'' (JStr ''common'');
          sys4 = setdefault sys3 ''weaponGroup'' (JStr []);
          sys5 = setdefault sys4 ''loadedAmmoId'' (JStr []);
          sys6 = setdefault sys5 ''loadedMagazineName'' (JStr []);
          sys7 = setdefault sys6 ''loadedRounds'' (JArr []);
          sys8 = setdefault sys7 ''reloadProgress'' (JNum 0)
      in setdefault sys8 ''rules'' (JArr []))"

definition refactor_weapon :: "dict \<Rightarrow> py_error + dict" where
  "refactor_weapon sys =
     (case infer_load_type (weapon_defaults sys) of
        Inl e \<Rightarrow> Inl e
      | Inr sys' \<Rightarrow> Inr (fix_melee_rof sys'))"

section \<open>fix-actor-data.py\<close>

subsection \<open>Formatting values into text\<close>

text \<open>
  The f-strings of the scripts format whatever value the document holds, with \<open>str\<close>;
  inside a list or a dictionary Python uses \<open>repr\<close>.
\<close>

fun join :: "string \<Rightarrow> string list \<Rightarrow> string" where
  \<comment> \<open>\<open>sep.join(parts)\<close>\<close>
  "join sep [] = []"
| "join sep [x] = x"
| "join sep (x # y # ys) = x @ sep @ join sep (y # ys)"

definition py_str_int :: "int \<Rightarrow> string" where
  "py_str_int n = (if n < 0 then CHR ''-'' # dec (nat (- n)) else dec (nat n))"

definition hex_digit :: "nat \<Rightarrow> char" where
  "hex_digit n = (if n < 10 then char_of (48 + n) else char_of (87 + n))"

definition printable :: "char \<Rightarrow> bool" where
  \<comment> \<open>\<open>str.isprintable\<close> on the modelled alphabet\<close>
  "printable c = (let n = (of_char c :: nat) in
      \<not> (n < 32 \<or> n = 127 \<or> (128 \<le> n \<and> n \<le> 160 \<and> n \<notin> {149, 150, 151}) \<or> n = 173))"

definition repr_char :: "char \<Rightarrow> char \<Rightarrow> string" where
  "repr_char q c =
     (if c = CHR 0x5C then [CHR 0x5C, CHR 0x5C]
      else if c = q then [CHR 0x5C, q]
      else if c = CHR 0x09 then [CHR 0x5C, CHR ''t'']
      else if c = CHR 0x0A then [CHR 0x5C, CHR ''n'']
      else if c = CHR 0x0D then [CHR 0x5C, CHR ''r'']
      else if \<not> printable c
        then [CHR 0x5C, CHR ''x'', hex_digit (of_char c div 16), hex_digit (of_char c mod 16)]
      else [c])"

definition repr_str :: "string \<Rightarrow> string" where
  \<comment> \<open>\<open>repr(s)\<close>: double quotes only when the text has a single quote and no double quote\<close>
  "repr_str s =
     (let q = (if CHR 0x27 \<in> set s \<and> CHR 0x22 \<notin> set s then CHR 0x22 else CHR 0x27)
      in q # concat (map (repr_char q) s) @ [q])"

fun py_repr :: "json \<Rightarrow> string" where
  "py_repr JNull = ''None''"
| "py_repr (JBool b) = (if b then ''True'' else ''False'')"
| "py_repr (JNum n) = py_str_int n"
| "py_repr (JStr s) = repr_str s"
| "py_repr (JArr xs) = ''['' @ join '', '' (map py_repr xs) @ '']''"
| "py_repr (JObj d) =
     ''{'' @ join '', '' (map (\<lambda>kv. repr_str (fst kv) @ '': '' @ py_repr (snd kv)) d) @ ''}''"

definition py_str :: "json \<Rightarrow> string" where
  \<comment> \<open>\<open>str(v)\<close>, which is what \<open>f"{v}"\<close> inserts\<close>
  "py_str v = (case v of JStr s \<Rightarrow> s | _ \<Rightarrow> py_repr v)"

fun contains :: "string \<Rightarrow> string \<Rightarrow> bool" where
  \<comment> \<open>\<open>sub in s\<close> for two strings\<close>
  "contains sub [] = (sub = [])"
| "contains sub (c # cs) = (take (length sub) (c # cs) = sub \<or> contains sub cs)"

subsection \<open>Tables\<close>

definition DAMAGE_TYPE_MAP :: "(string \<times> string) list" where
  "DAMAGE_TYPE_MAP =
     [(''E'', ''energy''), (''R'', ''rending''), (''I'', ''impact''), (''X'', ''explosive'')]"

definition WEAPON_CLASS_MAP :: "(string \<times> string) list" where
  "WEAPON_CLASS_MAP =
     [(''Melee'', ''melee''), (''Pistol'', ''ranged''), (''Basic'', ''ranged''),
      (''Heavy'', ''ranged''), (''Thrown'', ''thrown'')]"

subsection \<open>fix_characteristics\<close>

definition fix_characteristic :: "json \<Rightarrow> json" where
  \<comment> \<open>the body of the loop\<close>
  "fix_characteristic val =
     (case val of
        JObj v \<Rightarrow> JObj [(''base'', dict_get v ''base'' (dict_get v ''value'' (JNum 25))),
                         (''advances'', dict_get v ''advances'' (JNum 0))]
      | _ \<Rightarrow> JObj [(''base'', val), (''advances'', JNum 0)])"

definition fix_characteristics :: "json \<Rightarrow> py_error + json" where
  \<comment> \<open>\<open>chars.items()\<close> needs a dictionary\<close>
  "fix_characteristics chars =
     (case chars of
        JObj c \<Rightarrow> Inr (JObj (fold (\<lambda>kv fixed. dict_set fixed (fst kv) (fix_characteristic (snd kv))) c []))
      | _ \<Rightarrow> Inl AttributeError)"

subsection \<open>fix_actor_armour\<close>

definition iter_json :: "json \<Rightarrow> py_error + json list" where
  \<comment> \<open>what \<open>for item in v\<close> runs over: a dictionary gives its keys, a string its characters\<close>
  "iter_json v =
     (case v of
        JArr xs \<Rightarrow> Inr xs
      | JObj d \<Rightarrow> Inr (map (\<lambda>kv. JStr (fst kv)) d)
      | JStr s \<Rightarrow> Inr (map (\<lambda>c. JStr [c]) s)
      | _ \<Rightarrow> Inl TypeError)"

definition is_armour_item :: "json \<Rightarrow> bool" where
  \<comment> \<open>\<open>isinstance(item, dict) and item.get("type") == "armour"\<close>\<close>
  "is_armour_item item =
     (case item of JObj i \<Rightarrow> dict_get i ''type'' JNull = JStr ''armour'' | _ \<Rightarrow> False)"

definition locations :: "dict \<Rightarrow> json" where
  \<comment> \<open>the six \<open>locs.get(..., 0)\<close>\<close>
  "locations locs =
     JObj [(''head'', dict_get locs ''head'' (JNum 0)),
           (''rightArm'', dict_get locs ''rightArm'' (JNum 0)),
           (''leftArm'', dict_get locs ''leftArm'' (JNum 0)),
           (''body'', dict_get locs ''body'' (JNum 0)),
           (''rightLeg'', dict_get locs ''rightLeg'' (JNum 0)),
           (''leftLeg'', dict_get locs ''leftLeg'' (JNum 0))]"

definition uniform_armour :: "json \<Rightarrow> json" where
  "uniform_armour val =
     JObj [(''head'', val), (''rightArm'', val), (''leftArm'', val),
           (''body'', val), (''rightLeg'', val), (''leftLeg'', val)]"

definition item_locations :: "json \<Rightarrow> py_error + json" where
  \<comment> \<open>\<open>locs = d.get("ap", d.get("locations", {}))\<close> and the six reads; \<open>.get\<close> needs
      dictionaries\<close>
  "item_locations sys_data =
     (case sys_data of
        JObj d \<Rightarrow>
          (case dict_get d ''ap'' (dict_get d ''locations'' (JObj [])) of
             JObj locs \<Rightarrow> Inr (locations locs)
           | _ \<Rightarrow> Inl AttributeError)
      | _ \<Rightarrow> Inl AttributeError)"

definition fix_actor_armour :: "dict \<Rightarrow> py_error + json" where
  "fix_actor_armour actor =
     (case iter_json (dict_get actor ''items'' (JArr [])) of
        Inl e \<Rightarrow> Inl e
      | Inr items \<Rightarrow>
         (case find is_armour_item items of
            Some (JObj armour_item) \<Rightarrow> item_locations (dict_get armour_item ''system'' (JObj []))
          | _ \<Rightarrow>
             (case dict_get actor ''system'' (JObj []) of
                JObj s \<Rightarrow>
                  (case dict_get s ''armour'' (JObj []) of
                     JObj old_armour \<Rightarrow>
                       if dict_has old_armour ''value''
                       then Inr (uniform_armour (dict_get old_armour ''value'' JNull))
                       else Inr (uniform_armour (JNum 0))
                   | _ \<Rightarrow> Inr (uniform_armour (JNum 0)))
              | _ \<Rightarrow> Inl AttributeError)))"

subsection \<open>parse_rof\<close>

fun valid_digits :: "string \<Rightarrow> bool" where
  \<comment> \<open>digits, with single underscores between digits\<close>
  "valid_digits [] = False"
| "valid_digits [c] = isdigit c"
| "valid_digits (c # d # r) =
     (isdigit c \<and> (if d = CHR ''_'' then valid_digits r else valid_digits (d # r)))"

definition int_of_str :: "string \<Rightarrow> int option" where
  \<comment> \<open>\<open>int(s)\<close> on a stripped string; \<open>None\<close> is \<open>ValueError\<close>\<close>
  "int_of_str s =
     (let neg = (case s of c # r \<Rightarrow> c = CHR ''-'' | [] \<Rightarrow> False);
          body = (case s of c # r \<Rightarrow> if c = CHR ''-'' \<or> c = CHR ''+'' then r else s | [] \<Rightarrow> s)
      in if valid_digits body
         then Some ((if neg then - 1 else 1) * py_int (filter (\<lambda>c. c \<noteq> CHR ''_'') body))
         else None)"

definition rof_count :: "string \<Rightarrow> json" where
  \<comment> \<open>\<open>int(p.strip()) if p.strip() != "-" else 0\<close>, 0 on \<open>ValueError\<close>\<close>
  "rof_count p =
     (if strip p \<noteq> ''-'' then (case int_of_str (strip p) of Some n \<Rightarrow> JNum n | None \<Rightarrow> JNum 0)
      else JNum 0)"

definition rof_object :: "bool \<Rightarrow> json \<Rightarrow> json \<Rightarrow> json" where
  "rof_object single semi full =
     JObj [(''single'', JBool single), (''semi'', semi), (''full'', full)]"

definition parse_rof :: "json \<Rightarrow> json" where
  \<comment> \<open>\<open>.upper() == "S"\<close> holds for the two strings \<open>S\<close> and \<open>s\<close>\<close>
  "parse_rof rof =
     (case rof of
        JStr rof_str \<Rightarrow>
          if rof_str = [] then rof_object False (JNum 0) (JNum 0)
          else (case split_on (CHR ''/'') rof_str of
                  [p0, p1, p2] \<Rightarrow>
                    rof_object (strip p0 = ''S'' \<or> strip p0 = ''s'') (rof_count p1) (rof_count p2)
                | _ \<Rightarrow> rof_object True (JNum 0) (JNum 0))
      | _ \<Rightarrow> rof_object False (JNum 0) (JNum 0))"

subsection \<open>The item fixers\<close>

definition weapon_class :: "dict \<Rightarrow> py_error + json" where
  \<comment> \<open>\<open>WEAPON_CLASS_MAP.get(raw_class, raw_class.lower())\<close>: \<open>.lower()\<close> needs a string\<close>
  "weapon_class item_sys =
     (case dict_get item_sys ''class'' (JStr ''melee'') of
        JStr raw_class \<Rightarrow> Inr (JStr (dict_get WEAPON_CLASS_MAP raw_class (lower raw_class)))
      | _ \<Rightarrow> Inl AttributeError)"

definition weapon_rof :: "dict \<Rightarrow> json" where
  "weapon_rof item_sys =
     (if dict_has item_sys ''rof'' then dict_get item_sys ''rof'' JNull
      else if dict_has item_sys ''rateOfFire'' then parse_rof (dict_get item_sys ''rateOfFire'' JNull)
      else rof_object False (JNum 0) (JNum 0))"

definition weapon_damage :: "dict \<Rightarrow> py_error + json" where
  "weapon_damage item_sys =
     (case dict_get item_sys ''damage'' JNull of
        JObj d \<Rightarrow> Inr (JObj d)
      | _ \<Rightarrow>
         (case dict_get item_sys ''damageType'' (JStr ''I'') of
            JStr damage_type \<Rightarrow>
              Inr (JObj [(''formula'', dict_get item_sys ''damage'' (JStr ''1d10'')),
                         (''type'', JStr (dict_get DAMAGE_TYPE_MAP damage_type (lower damage_type))),
                         (''bonus'', JNum 0)])
          | _ \<Rightarrow> Inl AttributeError))"

definition weapon_clip :: "dict \<Rightarrow> json" where
  \<comment> \<open>a boolean is an \<open>int\<close> to \<open>isinstance\<close>\<close>
  "weapon_clip item_sys =
     (case dict_get item_sys ''clip'' JNull of
        JObj c \<Rightarrow> JObj c
      | JNum n \<Rightarrow> JObj [(''value'', JNum n), (''max'', JNum n)]
      | JBool b \<Rightarrow> JObj [(''value'', JNum (if b then 1 else 0)), (''max'', JNum (if b then 1 else 0))]
      | _ \<Rightarrow> JObj [(''value'', JNum 0), (''max'', JNum 0)])"

definition is_list :: "json \<Rightarrow> bool" where
  "is_list v = (case v of JArr xs \<Rightarrow> True | _ \<Rightarrow> False)"

definition weapon_qualities :: "dict \<Rightarrow> py_error + json" where
  "weapon_qualities item_sys =
     (if dict_has item_sys ''qualities'' \<and> is_list (dict_get item_sys ''qualities'' JNull)
      then Inr (dict_get item_sys ''qualities'' JNull)
      else if dict_has item_sys ''special'' \<and> truthy (dict_get item_sys ''special'' JNull)
      then (case dict_get item_sys ''special'' JNull of
              JStr special \<Rightarrow>
                Inr (JArr (map (\<lambda>q. JStr (strip q))
                             (filter (\<lambda>q. strip q \<noteq> []) (split_on (CHR '','') special))))
            | _ \<Rightarrow> Inl AttributeError)
      else Inr (JArr []))"

definition with_availability :: "dict \<Rightarrow> dict \<Rightarrow> dict" where
  \<comment> \<open>\<open>if "availability" in item_sys: fixed["availability"] = item_sys["availability"]\<close>\<close>
  "with_availability item_sys fixed =
     (if dict_has item_sys ''availability''
      then dict_set fixed ''availability'' (dict_get item_sys ''availability'' JNull)
      else fixed)"

definition fix_weapon :: "json \<Rightarrow> py_error + json" where
  "fix_weapon item_sys0 =
     (case item_sys0 of
        JObj item_sys \<Rightarrow>
          (case weapon_class item_sys of
             Inl e \<Rightarrow> Inl e
           | Inr cls \<Rightarrow>
              (case weapon_damage item_sys of
                 Inl e \<Rightarrow> Inl e
               | Inr damage \<Rightarrow>
                  (case weapon_qualities item_sys of
                     Inl e \<Rightarrow> Inl e
                   | Inr qualities \<Rightarrow>
                      Inr (JObj (with_availability item_sys
                        [(''description'', dict_get item_sys ''description'' (JStr [])),
                         (''class'', cls),
                         (''range'', dict_get item_sys ''range'' (JNum 0)),
                         (''rof'', weapon_rof item_sys),
                         (''damage'', damage),
                         (''penetration'', dict_get item_sys ''penetration'' (JNum 0)),
                         (''clip'', weapon_clip item_sys),
                         (''reload'', dict_get item_sys ''reload'' (JStr [])),
                         (''weight'', dict_get item_sys ''weight'' (JNum 0)),
                         (''qualities'', qualities),
                         (''equipped'', dict_get item_sys ''equipped'' (JBool True))])))))
      | _ \<Rightarrow> Inl AttributeError)"

definition fix_armour_item :: "json \<Rightarrow> py_error + json" where
  "fix_armour_item item_sys0 =
     (case item_sys0 of
        JObj item_sys \<Rightarrow>
          (case item_locations item_sys0 of
             Inl e \<Rightarrow> Inl e
           | Inr locs \<Rightarrow>
              Inr (JObj (with_availability item_sys
                [(''description'', dict_get item_sys ''description'' (JStr [])),
                 (''locations'', locs),
                 (''maxAgility'', dict_get item_sys ''maxAgility'' (JNum 0)),
                 (''qualities'', dict_get item_sys ''qualities'' (JArr [])),
                 (''weight'', dict_get item_sys ''weight'' (JNum 0)),
                 (''equipped'', dict_get item_sys ''equipped'' (JBool True))])))
      | _ \<Rightarrow> Inl AttributeError)"

definition fix_gear_item :: "json \<Rightarrow> py_error + json" where
  "fix_gear_item item_sys0 =
     (case item_sys0 of
        JObj item_sys \<Rightarrow>
          Inr (JObj (with_availability item_sys
            [(''description'', dict_get item_sys ''description'' (JStr [])),
             (''weight'', dict_get item_sys ''weight'' (JNum 0)),
             (''quantity'', dict_get item_sys ''quantity'' (JNum 1))]))
      | _ \<Rightarrow> Inl AttributeError)"

subsection \<open>fix_actor\<close>

definition movement_text :: "json \<Rightarrow> py_error + string list" where
  \<comment> \<open>\<open>if old_movement: notes_parts.append(f"\nMOVEMENT: Half {mv.get('half', 0)}, ...")\<close>\<close>
  "movement_text old_movement =
     (if truthy old_movement then
        (case old_movement of
           JObj mv \<Rightarrow>
             Inr [NEWLINE # ''MOVEMENT: Half '' @ py_str (dict_get mv ''half'' (JNum 0))
                    @ '', Full '' @ py_str (dict_get mv ''full'' (JNum 0))
                    @ '', Charge '' @ py_str (dict_get mv ''charge'' (JNum 0))
                    @ '', Run '' @ py_str (dict_get mv ''run'' (JNum 0))]
         | _ \<Rightarrow> Inl AttributeError)
      else Inr [])"

definition notes_text :: "json \<Rightarrow> json \<Rightarrow> json \<Rightarrow> json \<Rightarrow> py_error + string" where
  \<comment> \<open>the list \<open>notes_parts\<close> and its \<open>"\n".join\<close>, which needs every part to be a string;
      only the description is appended as it is\<close>
  "notes_text old_desc old_threat old_movement old_notes =
     (case movement_text old_movement of
        Inl e \<Rightarrow> Inl e
      | Inr movement_part \<Rightarrow>
         (case (if truthy old_desc
                then (case old_desc of JStr s \<Rightarrow> Inr [s] | _ \<Rightarrow> Inl TypeError)
                else Inr []) of
            Inl e \<Rightarrow> Inl e
          | Inr desc_part \<Rightarrow>
             Inr (join [NEWLINE]
               (desc_part
                @ (if truthy old_threat then [NEWLINE # ''THREAT RATING: '' @ py_str old_threat] else [])
                @ movement_part
                @ (if truthy old_notes then [NEWLINE # py_str old_notes] else [])))))"

definition npc_defaults :: "dict \<Rightarrow> dict" where
  \<comment> \<open>step 3: \<open>if k not in sys: sys[k] = v\<close>\<close>
  "npc_defaults sys =
     (let sys1 = setdefault sys ''fate'' (JObj [(''value'', JNum 0), (''max'', JNum 0)]);
          sys2 = setdefault sys1 ''fatigue'' (JNum 0);
          sys3 = setdefault sys2 ''corruption'' (JNum 0);
          sys4 = setdefault sys3 ''insanity'' (JNum 0);
          sys5 = setdefault sys4 ''influence'' (JNum 0);
          sys6 = setdefault sys5 ''xp'' (JObj [(''total'', JNum 0), (''spent'', JNum 0)]);
          sys7 = setdefault sys6 ''aptitudes'' (JArr [])
      in setdefault sys7 ''defeated'' (JBool False))"

definition fix_item :: "json \<Rightarrow> py_error + json" where
  \<comment> \<open>the body of the loop of step 5\<close>
  "fix_item item0 =
     (case item0 of
        JObj item \<Rightarrow>
          (let item_sys = dict_get item ''system'' (JObj []);
               item_type = dict_get item ''type'' (JStr [])
           in if item_type = JStr ''weapon'' then
                (case fix_weapon item_sys of
                   Inl e \<Rightarrow> Inl e | Inr s \<Rightarrow> Inr (JObj (dict_set item ''system'' s)))
              else if item_type = JStr ''armour'' then
                (case fix_armour_item item_sys of
                   Inl e \<Rightarrow> Inl e | Inr s \<Rightarrow> Inr (JObj (dict_set item ''system'' s)))
              else if item_type = JStr ''gear'' then
                (case fix_gear_item item_sys of
                   Inl e \<Rightarrow> Inl e | Inr s \<Rightarrow> Inr (JObj (dict_set item ''system'' s)))
              else Inr item0)
      | _ \<Rightarrow> Inr item0)"

fun fix_items :: "json list \<Rightarrow> py_error + json list" where
  \<comment> \<open>\<open>for item in actor["items"]\<close>: the first exception ends the run\<close>
  "fix_items [] = Inr []"
| "fix_items (x # xs) =
     (case fix_item x of
        Inl e \<Rightarrow> Inl e
      | Inr y \<Rightarrow> (case fix_items xs of Inl e \<Rightarrow> Inl e | Inr ys \<Rightarrow> Inr (y # ys)))"

definition fix_actor_bad_system :: "dict \<Rightarrow> json \<Rightarrow> py_error" where
  \<comment> \<open>a \<open>system\<close> that is no dictionary: \<open>"characteristics" in sys\<close> is refused for
      \<open>None\<close>, booleans and numbers; a string or a list answers it, and then either the
      read \<open>sys["characteristics"]\<close> or the write \<open>sys["armour"] = ...\<close> is refused\<close>
  "fix_actor_bad_system actor sys =
     (let found = (case sys of
                     JStr s \<Rightarrow> Some (contains ''characteristics'' s)
                   | JArr xs \<Rightarrow> Some (JStr ''characteristics'' \<in> set xs)
                   | _ \<Rightarrow> None)
      in case found of
           None \<Rightarrow> TypeError
         | Some True \<Rightarrow> TypeError
         | Some False \<Rightarrow> (case fix_actor_armour actor of Inl e \<Rightarrow> e | Inr a \<Rightarrow> TypeError))"

definition fix_actor_items :: "dict \<Rightarrow> py_error + dict" where
  \<comment> \<open>step 5\<close>
  "fix_actor_items actor =
     (if dict_has actor ''items'' then
        (case dict_get actor ''items'' JNull of
           JArr items \<Rightarrow>
             (case fix_items items of
                Inl e \<Rightarrow> Inl e
              | Inr items' \<Rightarrow> Inr (dict_set actor ''items'' (JArr items')))
         | _ \<Rightarrow> Inr actor)
      else Inr actor)"

definition fix_details :: "dict \<Rightarrow> py_error + dict" where
  \<comment> \<open>step 4: the three \<open>pop\<close>s, the combined notes and the \<open>details\<close> dictionary\<close>
  "fix_details sys =
     (let old_notes = dict_get sys ''notes'' (JStr []);
          sys1 = dict_pop sys ''notes'';
          old_desc = dict_get sys1 ''description'' (JStr []);
          old_threat = dict_get sys1 ''threatRating'' (JStr []);
          sys2 = dict_pop sys1 ''threatRating'';
          old_movement = dict_get sys2 ''movement'' JNull;
          sys3 = dict_pop sys2 ''movement''
      in case notes_text old_desc old_threat old_movement old_notes of
           Inl e \<Rightarrow> Inl e
         | Inr combined_notes \<Rightarrow>
            Inr (dict_set sys3 ''details''
                  (JObj [(''homeworld'', JStr []),
                         (''background'', JStr []),
                         (''role'', if truthy old_threat then old_threat else JStr []),
                         (''divination'', JStr []),
                         (''notes'', JStr combined_notes)])))"

definition fix_actor :: "json \<Rightarrow> py_error + json" where
  "fix_actor actor0 =
     (case actor0 of
        JObj actor \<Rightarrow>
          (case dict_get actor ''system'' (JObj []) of
             JObj sys \<Rightarrow>
               (case (if dict_has sys ''characteristics''
                      then (case fix_characteristics (dict_get sys ''characteristics'' JNull) of
                              Inl e \<Rightarrow> Inl e
                            | Inr c \<Rightarrow> Inr (dict_set sys ''characteristics'' c))
                      else Inr sys) of
                  Inl e \<Rightarrow> Inl e
                | Inr sys1 \<Rightarrow>
                   (case fix_actor_armour
                           (if dict_has actor ''system'' then dict_set actor ''system'' (JObj sys1)
                            else actor) of
                      Inl e \<Rightarrow> Inl e
                    | Inr armour \<Rightarrow>
                       (case fix_details (npc_defaults (dict_set sys1 ''armour'' armour)) of
                          Inl e \<Rightarrow> Inl e
                        | Inr sys2 \<Rightarrow>
                           (case fix_actor_items actor of
                              Inl e \<Rightarrow> Inl e
                            | Inr actor1 \<Rightarrow> Inr (JObj (dict_set actor1 ''system'' (JObj sys2)))))))
           | sys \<Rightarrow> Inl (fix_actor_bad_system actor sys))
      | _ \<Rightarrow> Inl AttributeError)"

section \<open>add-actor-items.py: extraction from the narrative\<close>

text \<open>
  These patterns are compiled with \<open>DOTALL\<close>: \<open>.\<close> matches every character. \<open>re.search\<close>
  takes the leftmost position at which the pattern matches.
\<close>

definition isupper_ascii :: "char \<Rightarrow> bool" where
  \<comment> \<open>the class \<open>[A-Z]\<close>\<close>
  "isupper_ascii c = (let n = (of_char c :: nat) in 65 \<le> n \<and> n \<le> 90)"

definition starts_with :: "string \<Rightarrow> string \<Rightarrow> bool" where
  "starts_with p s = (take (length p) s = p)"

definition section_end :: "string \<Rightarrow> bool" where
  \<comment> \<open>\<open>(?:\.\n|\n\n|\n[A-Z]{2,}[:\s]|$)\<close> at the start of the text\<close>
  "section_end t =
     (starts_with [CHR ''.'', NEWLINE] t
      \<or> starts_with [NEWLINE, NEWLINE] t
      \<or> (case t of
            c # u \<Rightarrow> c = NEWLINE \<and> 2 \<le> length (takeWhile isupper_ascii u) \<and>
                     (case dropWhile isupper_ascii u of
                        d # r \<Rightarrow> d = CHR '':'' \<or> isspace d
                      | [] \<Rightarrow> False)
          | [] \<Rightarrow> False)
      \<or> at_end t)"

fun lazy_section :: "string \<Rightarrow> string \<Rightarrow> string" where
  \<comment> \<open>\<open>(.+?)\<close> before the end of the section, the group read so far in the first argument\<close>
  "lazy_section acc [] = acc"
| "lazy_section acc (c # r) =
     (if acc \<noteq> [] \<and> section_end (c # r) then acc else lazy_section (acc @ [c]) r)"

definition section_group :: "string \<Rightarrow> string option" where
  \<comment> \<open>\<open>\s*(.+?)(?:...)\<close> after the label: \<open>\s*\<close> takes all the white space, and gives one
      character back to the group when nothing else is left\<close>
  "section_group r =
     (if dropWhile isspace r \<noteq> [] then Some (lazy_section [] (dropWhile isspace r))
      else if r \<noteq> [] then Some [last r]
      else None)"

fun search_section :: "string \<Rightarrow> string \<Rightarrow> string option" where
  \<comment> \<open>\<open>re.search\<close> of the label and the group, from the leftmost position on\<close>
  "search_section label [] = (if label = [] then section_group [] else None)"
| "search_section label (c # cs) =
     (case (if starts_with label (c # cs) then section_group (drop (length label) (c # cs))
            else None) of
        Some g \<Rightarrow> Some g
      | None \<Rightarrow> search_section label cs)"

function collapse_ws :: "string \<Rightarrow> string" where
  \<comment> \<open>\<open>re.sub(r'\s+', ' ', text)\<close>\<close>
  "collapse_ws [] = []"
| "collapse_ws (c # cs) =
     (if isspace c then CHR '' '' # collapse_ws (dropWhile isspace cs) else c # collapse_ws cs)"
  by pat_completeness auto
termination
  by (relation "measure length") (auto simp: length_dropWhile_le less_Suc_eq_le)

definition extract_section :: "string \<Rightarrow> string \<Rightarrow> string list" where
  \<comment> \<open>\<open>section_name\<close> is one of \<open>SKILLS\<close>, \<open>TALENTS\<close>, \<open>TRAITS\<close>: a text the pattern takes
      literally\<close>
  "extract_section notes section_name =
     (case search_section (section_name @ '':'') notes of
        None \<Rightarrow> []
      | Some g \<Rightarrow> split_respecting_parens (rstrip_dot (collapse_ws (strip g))))"

subsection \<open>Bulleted sections\<close>

fun lazy_block :: "string list \<Rightarrow> string \<Rightarrow> string \<Rightarrow> string" where
  \<comment> \<open>\<open>(.*?)(?:\n(?:STOP1|STOP2|...)|$)\<close>\<close>
  "lazy_block stops acc [] = acc"
| "lazy_block stops acc (c # r) =
     (if (c = NEWLINE \<and> (\<exists>s\<in>set stops. starts_with s r)) \<or> at_end (c # r) then acc
      else lazy_block stops (acc @ [c]) r)"

fun search_block :: "string list \<Rightarrow> string list \<Rightarrow> string \<Rightarrow> string option" where
  \<comment> \<open>\<open>re.search\<close> of \<open>(?:LABEL1|LABEL2):\s*\n*(.*?)(?:...)\<close>: once a label is found the rest
      always matches\<close>
  "search_block labels stops [] = None"
| "search_block labels stops (c # cs) =
     (case find (\<lambda>l. starts_with l (c # cs)) labels of
        Some l \<Rightarrow> Some (lazy_block stops [] (dropWhile isspace (drop (length l) (c # cs))))
      | None \<Rightarrow> search_block labels stops cs)"

function bullet_split :: "string \<Rightarrow> string \<Rightarrow> string list" where
  \<comment> \<open>\<open>re.split(r'\<bullet>\s*', text)\<close>, the piece read so far in the first argument\<close>
  "bullet_split acc [] = [acc]"
| "bullet_split acc (c # r) =
     (if c = BULLET then acc # bullet_split [] (dropWhile isspace r)
      else bullet_split (acc @ [c]) r)"
  by pat_completeness auto
termination
  by (relation "measure (\<lambda>(acc, s). length s)") (auto simp: length_dropWhile_le less_Suc_eq_le)

definition is_dash :: "char \<Rightarrow> bool" where
  \<comment> \<open>the class of the em dash and the en dash\<close>
  "is_dash c = (c = EM_DASH \<or> c = EN_DASH)"

definition after_dash :: "string \<Rightarrow> string option" where
  \<comment> \<open>\<open>\s*(.+)\<close> to the end of the text\<close>
  "after_dash r =
     (if dropWhile isspace r \<noteq> [] then Some (dropWhile isspace r)
      else if r \<noteq> [] then Some [last r]
      else None)"

fun dash_match :: "string \<Rightarrow> string \<Rightarrow> (string \<times> string) option" where
  \<comment> \<open>\<open>re.match(r'(.+?)\s*[DASHES]\s*(.+)', part, re.DOTALL)\<close>\<close>
  "dash_match acc [] = None"
| "dash_match acc (c # r) =
     (case (if acc = [] then None
            else (case dropWhile isspace (c # r) of
                    d # r2 \<Rightarrow> if is_dash d then after_dash r2 else None
                  | [] \<Rightarrow> None)) of
        Some g2 \<Rightarrow> Some (acc, g2)
      | None \<Rightarrow> dash_match (acc @ [c]) r)"

fun bullets :: "string list \<Rightarrow> (string \<times> string) list \<Rightarrow> (string \<times> string) list" where
  \<comment> \<open>\<open>for part in parts: ... abilities[name] = desc\<close>\<close>
  "bullets [] abilities = abilities"
| "bullets (p # parts) abilities =
     (let part = strip p
      in if part = [] then bullets parts abilities
         else (case dash_match [] part of
                 Some (g1, g2) \<Rightarrow> bullets parts (dict_set abilities (strip g1) (strip g2))
               | None \<Rightarrow> bullets parts abilities))"

definition extract_bullets :: "string list \<Rightarrow> string list \<Rightarrow> string \<Rightarrow> (string \<times> string) list" where
  "extract_bullets labels stops notes =
     (case search_block labels stops notes of
        None \<Rightarrow> []
      | Some g \<Rightarrow> bullets (bullet_split [] (strip g)) [])"

definition extract_special_abilities :: "string \<Rightarrow> (string \<times> string) list" where
  "extract_special_abilities notes =
     extract_bullets [''SPECIAL ABILITIES:'', ''SPECIAL RULES:'']
       [''CASTLE'', ''PHASE'', ''DESTRUCTION'', ''FOUR'', ''GM '', ''TACTICS:'', ''GEAR:''] notes"

definition extract_psychic_powers :: "string \<Rightarrow> (string \<times> string) list" where
  "extract_psychic_powers notes =
     extract_bullets [''PSYCHIC POWERS:''] [''SPECIAL'', ''GM '', ''TACTICS:''] notes"

section \<open>add-actor-items.py: process_actor\<close>

definition item_name :: "json \<Rightarrow> string" where
  \<comment> \<open>\<open>item["name"]\<close> of a record the builders made\<close>
  "item_name item = (case field item ''name'' of Some (JStr n) \<Rightarrow> n | _ \<Rightarrow> [])"

definition item_type :: "json \<Rightarrow> json" where
  \<comment> \<open>\<open>i.get("type")\<close>\<close>
  "item_type item = (case field item ''type'' of Some t \<Rightarrow> t | None \<Rightarrow> JNull)"

definition name_base :: "string \<Rightarrow> string" where
  \<comment> \<open>\<open>s.split("(")[0].strip()\<close>\<close>
  "name_base s = strip (takeWhile (\<lambda>c. c \<noteq> CHR ''('') s)"

fun skills_loop :: "string list \<Rightarrow> nat \<Rightarrow> json list \<times> nat" where
  \<comment> \<open>\<open>for entry in skill_entries: new_items.extend(make_skill(entry))\<close>\<close>
  "skills_loop [] ctr = ([], ctr)"
| "skills_loop (entry # entries) ctr =
     (let (items, ctr1) = make_skill entry ctr;
          (more, ctr2) = skills_loop entries ctr1
      in (items @ more, ctr2))"

fun talents_loop :: "string list \<Rightarrow> nat \<Rightarrow> json list \<times> nat" where
  "talents_loop [] ctr = ([], ctr)"
| "talents_loop (entry # entries) ctr =
     (let (item, ctr1) = make_talent entry ctr;
          (more, ctr2) = talents_loop entries ctr1
      in (item # more, ctr2))"

fun traits_loop :: "string list \<Rightarrow> nat \<Rightarrow> json list \<times> nat" where
  "traits_loop [] ctr = ([], ctr)"
| "traits_loop (entry # entries) ctr =
     (let (item, ctr1) = make_trait entry [] ctr;
          (more, ctr2) = traits_loop entries ctr1
      in (item # more, ctr2))"

definition already_trait :: "json list \<Rightarrow> string \<Rightarrow> bool" where
  \<comment> \<open>\<open>any(item["name"].split("(")[0].strip() == sa_name.split("(")[0].strip()
      for item in new_items if item["type"] == "trait")\<close>\<close>
  "already_trait new_items sa_name =
     list_ex (\<lambda>item. item_type item = JStr ''trait'' \<and> name_base (item_name item) = name_base sa_name)
       new_items"

fun special_traits :: "(string \<times> string) list \<Rightarrow> json list \<Rightarrow> nat \<Rightarrow> json list \<times> nat" where
  \<comment> \<open>\<open>for sa_name, sa_desc in special_abilities.items()\<close>, with \<open>new_items\<close> passed along\<close>
  "special_traits [] new_items ctr = (new_items, ctr)"
| "special_traits (sa # rest) new_items ctr =
     (if \<not> already_trait new_items (fst sa)
      then (let (item, ctr1) = make_trait (fst sa) (snd sa) ctr
            in special_traits rest (new_items @ [item]) ctr1)
      else special_traits rest new_items ctr)"

fun range_search :: "string \<Rightarrow> string option" where
  \<comment> \<open>\<open>re.search(r'(\d+m\s*(?:cone|radius)?)', pw_desc)\<close>\<close>
  "range_search [] = None"
| "range_search (c # r) =
     (let ds = takeWhile isdigit (c # r); rest = dropWhile isdigit (c # r)
      in case rest of
           m # rest1 \<Rightarrow>
             if ds \<noteq> [] \<and> m = CHR ''m''
             then (let ws = takeWhile isspace rest1; rest2 = dropWhile isspace rest1
                   in Some (ds @ ''m'' @ ws @
                        (if starts_with ''cone'' rest2 then ''cone''
                         else if starts_with ''radius'' rest2 then ''radius'' else [])))
             else range_search r
         | [] \<Rightarrow> range_search r)"

fun powers_loop :: "(string \<times> string) list \<Rightarrow> nat \<Rightarrow> json list \<times> nat" where
  \<comment> \<open>\<open>for pw_name, pw_desc in psychic_powers.items()\<close>\<close>
  "powers_loop [] ctr = ([], ctr)"
| "powers_loop (pw # rest) ctr =
     (let pw_name = fst pw; pw_desc = snd pw;
          discipline = dict_get POWER_DISCIPLINES pw_name [];
          action = (if contains ''Full Action'' pw_desc then ''Full Action'' else ''Half Action'');
          sustained = (if contains ''sustained'' (lower pw_desc) then JStr ''Half Action''
                       else JBool False);
          range_str = (case range_search pw_desc of
                         Some g \<Rightarrow> g
                       | None \<Rightarrow> if contains ''touch'' (lower pw_desc) then ''Touch'' else []);
          (item, ctr1) = make_power pw_name pw_desc discipline action range_str sustained 0 ctr;
          (more, ctr2) = powers_loop rest ctr1
      in (item # more, ctr2))"

definition build_items ::
  "string list \<Rightarrow> string list \<Rightarrow> string list \<Rightarrow> (string \<times> string) list \<Rightarrow>
   (string \<times> string) list \<Rightarrow> nat \<Rightarrow> json list \<times> nat" where
  \<comment> \<open>\<open>new_items\<close> from the five extractions, in the order the loops of \<open>process_actor\<close> run\<close>
  "build_items skill_entries talent_entries trait_entries special_abilities psychic_powers ctr =
     (let (skills, ctr1) = skills_loop skill_entries ctr;
          (talents, ctr2) = talents_loop talent_entries ctr1;
          (traits, ctr3) = traits_loop trait_entries ctr2;
          (with_special, ctr4) = special_traits special_abilities (skills @ talents @ traits) ctr3;
          (powers, ctr5) = powers_loop psychic_powers ctr4
      in (with_special @ powers, ctr5))"

definition derive_items :: "string \<Rightarrow> nat \<Rightarrow> json list \<times> nat" where
  "derive_items orig_notes ctr =
     build_items (extract_section orig_notes ''SKILLS'') (extract_section orig_notes ''TALENTS'')
       (extract_section orig_notes ''TRAITS'') (extract_special_abilities orig_notes)
       (extract_psychic_powers orig_notes) ctr"

definition build_notes :: "dict \<Rightarrow> py_error + string" where
  \<comment> \<open>the argument is \<open>original_actor\<close>; \<open>sys.get\<close> needs a dictionary\<close>
  "build_notes original_actor =
     (case dict_get original_actor ''system'' (JObj []) of
        JObj sys \<Rightarrow>
          notes_text (dict_get sys ''description'' (JStr [])) (dict_get sys ''threatRating'' (JStr []))
            (dict_get sys ''movement'' JNull) (dict_get sys ''notes'' (JStr []))
      | _ \<Rightarrow> Inl AttributeError)"

definition set_details_notes :: "dict \<Rightarrow> string \<Rightarrow> py_error + dict" where
  \<comment> \<open>\<open>current_actor["system"]["details"]["notes"] = full_notes\<close>\<close>
  "set_details_notes current_actor full_notes =
     (case map_of current_actor ''system'' of
        None \<Rightarrow> Inl KeyError
      | Some (JObj sys) \<Rightarrow>
          (case map_of sys ''details'' of
             None \<Rightarrow> Inl KeyError
           | Some (JObj details) \<Rightarrow>
               Inr (dict_set current_actor ''system''
                     (JObj (dict_set sys ''details''
                             (JObj (dict_set details ''notes'' (JStr full_notes))))))
           | Some _ \<Rightarrow> Inl TypeError)
      | Some _ \<Rightarrow> Inl TypeError)"

definition regenerated :: "json \<Rightarrow> bool" where
  \<comment> \<open>\<open>i.get("type") in {"skill", "talent", "trait", "power"}\<close>\<close>
  "regenerated i = (item_type i \<in> set [JStr ''skill'', JStr ''talent'', JStr ''trait'', JStr ''power''])"

fun keep_items :: "json list \<Rightarrow> py_error + json list" where
  \<comment> \<open>\<open>[i for i in current_actor["items"] if i.get("type") not in item_types_to_add]\<close>:
      \<open>.get\<close> needs a dictionary, and the test against a set needs a hashable value\<close>
  "keep_items [] = Inr []"
| "keep_items (i # rest) =
     (case i of
        JObj d \<Rightarrow>
          (case item_type i of
             JArr xs \<Rightarrow> Inl TypeError
           | JObj ob \<Rightarrow> Inl TypeError
           | _ \<Rightarrow> (case keep_items rest of
                      Inl e \<Rightarrow> Inl e
                    | Inr kept \<Rightarrow> Inr (if regenerated i then kept else i # kept)))
      | _ \<Rightarrow> Inl AttributeError)"

definition replace_items :: "dict \<Rightarrow> json list \<Rightarrow> py_error + dict" where
  \<comment> \<open>the body of \<open>if new_items:\<close>\<close>
  "replace_items current_actor new_items =
     (let actor1 = (if \<not> dict_has current_actor ''items''
                    then dict_set current_actor ''items'' (JArr []) else current_actor)
      in case iter_json (dict_get actor1 ''items'' JNull) of
           Inl e \<Rightarrow> Inl e
         | Inr items \<Rightarrow>
            (case keep_items items of
               Inl e \<Rightarrow> Inl e
             | Inr kept \<Rightarrow> Inr (dict_set actor1 ''items'' (JArr (kept @ new_items)))))"

definition process_actor :: "json \<Rightarrow> json \<Rightarrow> nat \<Rightarrow> py_error + (json \<times> nat \<times> nat)" where
  \<comment> \<open>the actor after the call, the number returned and the identifier counter\<close>
  "process_actor current_actor0 original_actor0 ctr =
     (case original_actor0 of
        JObj original_actor \<Rightarrow>
          (case dict_get original_actor ''system'' (JObj []) of
             JObj osys \<Rightarrow>
               (case current_actor0 of
                  JObj current_actor \<Rightarrow>
                    (let orig_notes = dict_get osys ''notes'' (JStr [])
                     in if \<not> truthy orig_notes then Inr (current_actor0, 0, ctr)
                        else
                          (case build_notes original_actor of
                             Inl e \<Rightarrow> Inl e
                           | Inr full_notes \<Rightarrow>
                              (case set_details_notes current_actor full_notes of
                                 Inl e \<Rightarrow> Inl e
                               | Inr actor1 \<Rightarrow>
                                  (case orig_notes of
                                     JStr notes \<Rightarrow>
                                       (let (new_items, ctr1) = derive_items notes ctr
                                        in if new_items \<noteq> [] then
                                             (case replace_items actor1 new_items of
                                                Inl e \<Rightarrow> Inl e
                                              | Inr actor2 \<Rightarrow>
                                                 Inr (JObj actor2, length new_items, ctr1))
                                           else Inr (JObj actor1, 0, ctr1))
                                   | _ \<Rightarrow> Inl TypeError))))
                | _ \<Rightarrow> Inl AttributeError)
           | _ \<Rightarrow> Inl AttributeError)
      | _ \<Rightarrow> Inl AttributeError)"

section \<open>The vocabulary of the statements\<close>



text \<open>
  Readers for the statements: a record without its identifier, the list of an actor's
  embedded records, and the narrative of the original actor.
\<close>

definition drop_id :: "json \<Rightarrow> json" where
  "drop_id item = (case item of JObj d \<Rightarrow> JObj (dict_pop d ''_id'') | _ \<Rightarrow> item)"

definition actor_items :: "json \<Rightarrow> json list" where
  "actor_items actor = (case field actor ''items'' of Some (JArr xs) \<Rightarrow> xs | _ \<Rightarrow> [])"

definition original_notes :: "json \<Rightarrow> string" where
  "original_notes original_actor =
     (case field original_actor ''system'' of
        Some s \<Rightarrow> (case field s ''notes'' of Some (JStr n) \<Rightarrow> n | _ \<Rightarrow> [])
      | None \<Rightarrow> [])"

text \<open>
  The records the list comprehension of \<open>process_actor\<close> accepts: dictionaries whose
  \<open>type\<close> is hashable.
\<close>

definition item_ok :: "json \<Rightarrow> bool" where
  "item_ok i = ((case i of JObj d \<Rightarrow> True | _ \<Rightarrow> False) \<and>
               (case item_type i of JArr xs \<Rightarrow> False | JObj ob \<Rightarrow> False | _ \<Rightarrow> True))"


section \<open>Example documents\<close>

text \<open>
  The concrete weapons, actors and narratives at which the theorems below are evaluated.
\<close>

definition melee_weapon_in :: dict where
  "melee_weapon_in = [(''class'', JStr ''melee''), (''clip'', JNum 3),
     (''rof'', JObj [(''single'', JBool False), (''semi'', JNum 0), (''full'', JNum 0)])]"

definition melee_weapon_out :: dict where
  "melee_weapon_out = [(''class'', JStr ''melee''),
      (''rof'', JObj [(''single'', JBool True), (''semi'', JNum 0), (''full'', JNum 0)]),
      (''magazine'', JNum 3), (''craftsmanship'', JStr ''common''),
      (''weaponGroup'', JStr []), (''loadedAmmoId'', JStr []),
      (''loadedMagazineName'', JStr []), (''loadedRounds'', JArr []),
      (''reloadProgress'', JNum 0), (''rules'', JArr []),
      (''loadType'', JStr [])]"

definition melee_weapon_S :: dict where
  "melee_weapon_S = [(''class'', JStr ''melee''), (''rof'', JObj [(''single'', JStr ''S'')])]"

definition plain_actor :: dict where
  "plain_actor = [(''name'', JStr ''Cultist''), (''system'', JObj [(''armour'', JObj [(''value'', JNum 3)])])]"

definition armoured_actor :: dict where
  "armoured_actor =
     [(''name'', JStr ''Guard''),
      (''system'', JObj [(''armour'', JObj [(''value'', JNum 3)])]),
      (''items'', JArr [JObj [(''name'', JStr ''Flak Vest''), (''type'', JStr ''armour''),
                              (''system'', JObj [(''ap'', JObj [(''body'', JNum 4)])])]])]"

definition migrated_actor :: dict where
  "migrated_actor =
     [(''name'', JStr ''Cultist''),
      (''system'', JObj [(''armour'', JObj [(''head'', JNum 3), (''rightArm'', JNum 3),
          (''leftArm'', JNum 3), (''body'', JNum 3), (''rightLeg'', JNum 3), (''leftLeg'', JNum 3)])])]"

text \<open>
  An actor in the legacy shape, the actor \<open>fix_actor\<close> makes of it, and the actor a second
  \<open>fix_actor\<close> makes of that one.
\<close>

definition cultist :: json where
  "cultist =
     JObj [(''name'', JStr ''Cultist''),
           (''system'', JObj [(''armour'', JObj [(''value'', JNum 3)]),
                             (''threatRating'', JStr ''Minoris''),
                             (''notes'', JStr ''SKILLS: Dodge +10'')])]"

definition cultist_once :: json where
  "cultist_once =
     JObj [(''name'', JStr ''Cultist''),
           (''system'', JObj
             [(''armour'', JObj [(''head'', JNum 3), (''rightArm'', JNum 3), (''leftArm'', JNum 3),
                                (''body'', JNum 3), (''rightLeg'', JNum 3), (''leftLeg'', JNum 3)]),
              (''fate'', JObj [(''value'', JNum 0), (''max'', JNum 0)]),
              (''fatigue'', JNum 0), (''corruption'', JNum 0),
              (''insanity'', JNum 0), (''influence'', JNum 0),
              (''xp'', JObj [(''total'', JNum 0), (''spent'', JNum 0)]),
              (''aptitudes'', JArr []), (''defeated'', JBool False),
              (''details'', JObj
                [(''homeworld'', JStr []), (''background'', JStr []),
                 (''role'', JStr ''Minoris''), (''divination'', JStr []),
                 (''notes'', JStr (NEWLINE # ''THREAT RATING: Minoris'' @ [NEWLINE, NEWLINE] @ ''SKILLS: Dodge +10''))])])]"

definition cultist_twice :: json where
  "cultist_twice =
     JObj [(''name'', JStr ''Cultist''),
           (''system'', JObj
             [(''armour'', JObj [(''head'', JNum 0), (''rightArm'', JNum 0), (''leftArm'', JNum 0),
                                (''body'', JNum 0), (''rightLeg'', JNum 0), (''leftLeg'', JNum 0)]),
              (''fate'', JObj [(''value'', JNum 0), (''max'', JNum 0)]),
              (''fatigue'', JNum 0), (''corruption'', JNum 0),
              (''insanity'', JNum 0), (''influence'', JNum 0),
              (''xp'', JObj [(''total'', JNum 0), (''spent'', JNum 0)]),
              (''aptitudes'', JArr []), (''defeated'', JBool False),
              (''details'', JObj
                [(''homeworld'', JStr []), (''background'', JStr []),
                 (''role'', JStr []), (''divination'', JStr []),
                 (''notes'', JStr [])])])]"

definition claw :: json where
  "claw = JObj [(''name'', JStr ''Claw''), (''type'', JStr ''weapon'')]"

definition old_trait :: "string \<Rightarrow> json" where
  "old_trait n = JObj [(''_id'', JStr (''old'' @ n)), (''name'', JStr n), (''type'', JStr ''trait'')]"

definition ghoul :: json where
  "ghoul = JObj [(''name'', JStr ''Ghoul''),
                 (''system'', JObj [(''details'', JObj [(''notes'', JStr ''old'')])]),
                 (''items'', JArr [claw, old_trait ''Fear (1)'', old_trait ''Size (4)'',
                                   old_trait ''Undying''])]"

definition ghoul_original :: json where
  "ghoul_original = JObj [(''name'', JStr ''Ghoul''),
                          (''system'', JObj [(''notes'', JStr ''TRAITS: Fear (1), Size (4)'')])]"

definition ghoul_after :: json where
  "ghoul_after =
     JObj [(''name'', JStr ''Ghoul''),
           (''system'', JObj [(''details'',
              JObj [(''notes'', JStr (NEWLINE # ''TRAITS: Fear (1), Size (4)''))])]),
           (''items'', JArr [claw,
              fst (make_trait ''Fear (1)'' [] 0), fst (make_trait ''Size (4)'' [] 1)])]"

definition quiet_original :: json where
  "quiet_original = JObj [(''name'', JStr ''Ghoul''),
                          (''system'', JObj [(''notes'', JStr ''No listed abilities'')])]"



section \<open>Properties\<close>

subsection \<open>Properties of the tokenizer\<close>

lemma dropWhile_dropWhile: "dropWhile P (dropWhile P xs) = dropWhile P xs"
  by (induction xs) auto

lemma strip_Nil: "strip [] = []"
  by (simp add: strip_def lstrip_def rstrip_def)

lemma lstrip_rstrip_lstrip: "lstrip (rstrip (lstrip s)) = rstrip (lstrip s)"
proof (cases "lstrip s")
  case Nil
  then show ?thesis by (simp add: rstrip_def) (simp add: lstrip_def)
next
  case (Cons c cs)
  then have c: "\<not> isspace c"
    unfolding lstrip_def by (metis hd_dropWhile list.sel(1) list.distinct(1))
  have "\<exists>t. rstrip (c # cs) = c # t"
  proof -
    have "rstrip (c # cs) \<noteq> []"
      using c unfolding rstrip_def
      by (metis dropWhile_eq_Nil_conv list.set_intros(1) rev_is_Nil_conv set_rev)
    moreover have "take (length (rstrip (c # cs))) (c # cs) = rstrip (c # cs)"
      unfolding rstrip_def
      by (metis append_eq_conv_conj rev_append rev_rev_ident takeWhile_dropWhile_id)
    ultimately show ?thesis by (cases "rstrip (c # cs)") auto
  qed
  then obtain t where t: "rstrip (c # cs) = c # t" by blast
  show ?thesis using c by (simp add: Cons t) (simp add: lstrip_def)
qed

lemma strip_strip: "strip (strip s) = strip s"
  by (simp add: strip_def lstrip_rstrip_lstrip) (simp add: rstrip_def dropWhile_dropWhile)

lemma split_loop_result: "split_loop xs (r @ r') d cur = r @ split_loop xs r' d cur"
  by (induction xs r' d cur arbitrary: rule: split_loop.induct) auto

lemma split_loop_result0: "split_loop xs r d cur = r @ split_loop xs [] d cur"
  using split_loop_result [of xs r "[]" d cur] by simp

lemma split_loop_comma:
  "d + paren_depth a = 0 \<Longrightarrow>
   filter (\<lambda>r. r \<noteq> []) (split_loop (a @ CHR '','' # b) r d cur) =
   filter (\<lambda>r. r \<noteq> []) (split_loop a r d cur) @ filter (\<lambda>r. r \<noteq> []) (split_loop b [] 0 [])"
proof (induction a r d cur rule: split_loop.induct)
  case (1 result depth current)
  then have d: "depth = 0" by simp
  show ?case
    using split_loop_result0 [of b "result @ [strip current]" 0 "[]"]
    by (simp add: d strip_Nil)
next
  case (2 c cs result depth current)
  then show ?case by (auto split: if_splits)
qed

lemma split_loop_no_comma:
  "\<forall>i<length xs. xs ! i = CHR '','' \<longrightarrow> d + paren_depth (take i xs) \<noteq> 0 \<Longrightarrow>
   split_loop xs r d cur = (if cur @ xs \<noteq> [] then r @ [strip (cur @ xs)] else r)"
proof (induction xs r d cur rule: split_loop.induct)
  case (1 result depth current)
  then show ?case by simp
next
  case (2 c cs result depth current)
  have nc: "\<not> (c = CHR '','' \<and> depth = 0)"
    using 2(5) [rule_format, of 0] by auto
  have step: "\<forall>i<length cs. cs ! i = CHR '','' \<longrightarrow>
      depth + (if c = CHR ''('' then 1 else if c = CHR '')'' then - 1 else 0)
        + paren_depth (take i cs) \<noteq> 0"
  proof (intro allI impI)
    fix i assume "i < length cs" "cs ! i = CHR '',''"
    then show "depth + (if c = CHR ''('' then 1 else if c = CHR '')'' then - 1 else 0)
        + paren_depth (take i cs) \<noteq> 0"
      using 2(5) [rule_format, of "Suc i"] by (auto split: if_splits)
  qed
  show ?case
  proof (cases "c = CHR ''(''")
    case True
    then show ?thesis using 2(1) step by simp
  next
    case F1: False
    show ?thesis
    proof (cases "c = CHR '')''")
      case True
      then show ?thesis using F1 2(2) step by simp
    next
      case F2: False
      then show ?thesis using F1 nc 2(4) step by auto
    qed
  qed
qed

lemma split_loop_entries:
  "e \<in> set (split_loop xs r d cur) \<Longrightarrow> e \<in> set r \<or> (\<exists>s. e = strip s)"
  by (induction xs r d cur rule: split_loop.induct) (auto split: if_splits)

lemmas text_eval = strip_def lstrip_def rstrip_def rstrip_dot_def isspace_def isdigit_def
  NEWLINE_def at_end_def py_int_def

text \<open>
  Claim C6. \<open>split_respecting_parens\<close> splits at the commas of nesting depth zero and
  nowhere else, the depth being the count of opening minus closing parentheses: a comma
  that follows a prefix of depth zero separates the entries of the prefix from the entries
  of the rest; a text none of whose commas stands at depth zero is a single entry; every
  entry returned is non-empty and carries no surrounding white space (empty and
  white-space-only pieces are discarded); and the specification's example gives exactly
  two entries, the first with its inner comma.
\<close>

theorem split_respecting_parens_depth_zero:
  "(paren_depth a = 0 \<longrightarrow>
      split_respecting_parens (a @ CHR '','' # b) =
        split_respecting_parens a @ split_respecting_parens b)
   \<and> ((\<forall>i<length t. t ! i = CHR '','' \<longrightarrow> paren_depth (take i t) \<noteq> 0) \<longrightarrow>
      split_respecting_parens t = filter (\<lambda>r. r \<noteq> []) [strip t])
   \<and> (\<forall>e \<in> set (split_respecting_parens t). e \<noteq> [] \<and> strip e = e)
   \<and> split_respecting_parens
        ''Forbidden Lore (Warp, Daemonology), Scholastic Lore (Occult) +10'' =
       [''Forbidden Lore (Warp, Daemonology)'', ''Scholastic Lore (Occult) +10'']"
proof (intro conjI impI ballI)
  assume "paren_depth a = 0"
  then show "split_respecting_parens (a @ CHR '','' # b) =
      split_respecting_parens a @ split_respecting_parens b"
    using split_loop_comma [of 0 a b "[]" "[]"] by (simp add: split_respecting_parens_def)
next
  assume "\<forall>i<length t. t ! i = CHR '','' \<longrightarrow> paren_depth (take i t) \<noteq> 0"
  then show "split_respecting_parens t = filter (\<lambda>r. r \<noteq> []) [strip t]"
    using split_loop_no_comma [of t 0 "[]" "[]"]
    by (simp add: split_respecting_parens_def strip_Nil)
next
  fix e assume "e \<in> set (split_respecting_parens t)"
  then have "\<exists>s. e = strip s"
    using split_loop_entries [of e t "[]" 0 "[]"] by (simp add: split_respecting_parens_def)
  then show "strip e = e" by (auto simp: strip_strip)
next
  fix e assume "e \<in> set (split_respecting_parens t)"
  then show "e \<noteq> []" by (simp add: split_respecting_parens_def)
next
  show "split_respecting_parens
        ''Forbidden Lore (Warp, Daemonology), Scholastic Lore (Occult) +10'' =
       [''Forbidden Lore (Warp, Daemonology)'', ''Scholastic Lore (Occult) +10'']"
    by (simp add: split_respecting_parens_def text_eval)
qed

theorem split_respecting_parens_depth_zero_witness:
  "paren_depth ''Lore (A, B)'' = 0
   \<and> split_respecting_parens ''Lore (A, B), Dodge'' =
       split_respecting_parens ''Lore (A, B)'' @ split_respecting_parens '' Dodge''
   \<and> split_respecting_parens ''(A, B)'' = [''(A, B)'']
   \<and> ''(A, B)'' \<in> set (split_respecting_parens ''(A, B)'')
   \<and> strip ''(A, B)'' = ''(A, B)''"
proof -
  have d: "paren_depth ''Lore (A, B)'' = 0" by simp
  have n: "\<forall>i<length ''(A, B)''. ''(A, B)'' ! i = CHR '','' \<longrightarrow>
      paren_depth (take i ''(A, B)'') \<noteq> 0"
    by (simp add: All_less_Suc)
  have s: "strip ''(A, B)'' = ''(A, B)''" by (simp add: text_eval)
  note inst = split_respecting_parens_depth_zero [of "''Lore (A, B)''" "'' Dodge''" "''(A, B)''"]
  have one: "split_respecting_parens ''(A, B)'' = [''(A, B)'']"
    using inst n s by simp
  have m: "''(A, B)'' \<in> set (split_respecting_parens ''(A, B)'')"
    by (simp add: one)
  show ?thesis
    using inst d one m by simp
qed

subsection \<open>Properties of the record builders\<close>

lemma not_space_paren [simp]: "\<not> isspace (CHR ''('')" "\<not> isdigit (CHR '')'')" "\<not> isdigit (CHR ''x'')"
  "\<not> isdigit (CHR ''('')" "CHR '')'' \<noteq> NEWLINE"
  by (simp_all add: isspace_def isdigit_def NEWLINE_def)














lemma lazy_close_Nil: "lazy_close [] '')'' = None"
  by simp




















lemma skill_item_linked [simp]:
  "sys_field (skill_item i n l a s sp) ''linkedCharacteristic'' = Some (JStr l)"
  "sys_field (skill_item i n l a s sp) ''advancement'' = Some (JNum a)"
  "sys_field (skill_item i n l a s sp) ''isSpecialist'' = Some (JBool s)"
  "field (skill_item i n l a s sp) ''name'' = Some (JStr n)"
  "field (skill_item i n l a s sp) ''type'' = Some (JStr ''skill'')"
  by (simp_all add: skill_item_def sys_field_def field_def)






lemma command20:
  "fst (make_skill ''Command +20'' ctr) =
     [skill_item (fst (next_id ctr)) ''Command'' ''fel'' 2 False []]"
  by (simp add: make_skill_def skill_advancement_def match_paren_def open_group_def
      SKILL_CHARS_def dict_get_def text_eval split_beta)














subsection \<open>Properties of refactor-data.py\<close>

lemma map_of_dict_set [simp]: "map_of (dict_set d k v) = (map_of d)(k \<mapsto> v)"
  by (simp add: dict_set_def update_conv')

lemma map_of_dict_pop [simp]: "map_of (dict_pop d k) = (map_of d)(k := None)"
  by (simp add: dict_pop_def delete_conv')

lemma map_of_setdefault:
  "map_of (setdefault d k v) = (if map_of d k = None then (map_of d)(k \<mapsto> v) else map_of d)"
  by (simp add: setdefault_def dict_has_def)

lemma dict_has_setdefault [simp]: "dict_has (setdefault d k v) k' = (k' = k \<or> dict_has d k')"
  by (auto simp: dict_has_def map_of_setdefault)

lemma dict_has_dict_set [simp]: "dict_has (dict_set d k v) k' = (k' = k \<or> dict_has d k')"
  by (auto simp: dict_has_def)

lemma setdefault_present: "dict_has d k \<Longrightarrow> setdefault d k v = d"
  by (simp add: setdefault_def)

lemma dict_set_same: "map_of d k = Some v \<Longrightarrow> dict_set d k v = d"
  unfolding dict_set_def by (induction d) auto

lemma map_of_setdefault_other: "k \<noteq> k' \<Longrightarrow> map_of (setdefault d k' v) k = map_of d k"
  by (simp add: map_of_setdefault)

lemma weapon_defaults_other:
  "k \<notin> set [''clip'', ''magazine'', ''craftsmanship'', ''weaponGroup'', ''loadedAmmoId'',
             ''loadedMagazineName'', ''loadedRounds'', ''reloadProgress'', ''rules''] \<Longrightarrow>
   map_of (weapon_defaults sys) k = map_of sys k"
  by (simp add: weapon_defaults_def Let_def map_of_setdefault_other)

lemma weapon_defaults_has:
  "dict_has (weapon_defaults sys) ''magazine''"
  "dict_has (weapon_defaults sys) ''craftsmanship''"
  "dict_has (weapon_defaults sys) ''weaponGroup''"
  "dict_has (weapon_defaults sys) ''loadedAmmoId''"
  "dict_has (weapon_defaults sys) ''loadedMagazineName''"
  "dict_has (weapon_defaults sys) ''loadedRounds''"
  "dict_has (weapon_defaults sys) ''reloadProgress''"
  "dict_has (weapon_defaults sys) ''rules''"
  by (simp_all add: weapon_defaults_def Let_def)

lemma weapon_defaults_fixed:
  assumes "dict_has d ''magazine''" "dict_has d ''craftsmanship''" "dict_has d ''weaponGroup''"
    "dict_has d ''loadedAmmoId''" "dict_has d ''loadedMagazineName''" "dict_has d ''loadedRounds''"
    "dict_has d ''reloadProgress''" "dict_has d ''rules''"
  shows "weapon_defaults d = d"
  using assms by (simp add: weapon_defaults_def Let_def setdefault_present)

lemma infer_load_type_has:
  "infer_load_type d = Inr d' \<Longrightarrow> dict_has d' ''loadType'' \<and> (\<forall>k. dict_has d k \<longrightarrow> dict_has d' k)"
  by (auto simp: infer_load_type_def Let_def split: if_splits sum.splits)

lemma infer_load_type_other:
  "infer_load_type d = Inr d' \<Longrightarrow> k \<noteq> ''loadType'' \<Longrightarrow> map_of d' k = map_of d k"
  by (auto simp: infer_load_type_def Let_def split: if_splits sum.splits)

lemma infer_load_type_fixed: "dict_has d ''loadType'' \<Longrightarrow> infer_load_type d = Inr d"
  by (simp add: infer_load_type_def)

lemma fix_melee_rof_has [simp]: "dict_has (fix_melee_rof d) k = dict_has d k"
  by (auto simp: fix_melee_rof_def dict_has_def split: option.splits json.splits)

lemma fix_melee_rof_other: "k \<noteq> ''rof'' \<Longrightarrow> map_of (fix_melee_rof d) k = map_of d k"
  by (auto simp: fix_melee_rof_def split: option.splits json.splits)

lemma fix_melee_rof_idem: "fix_melee_rof (fix_melee_rof d) = fix_melee_rof d"
proof (cases "dict_get d ''class'' JNull = JStr ''melee''")
  case False
  then show ?thesis by (simp add: fix_melee_rof_def)
next
  case True
  then have c: "dict_get (fix_melee_rof d) ''class'' JNull = JStr ''melee''"
    by (simp add: dict_get_def fix_melee_rof_other)
  show ?thesis
  proof (cases "\<exists>rof. map_of d ''rof'' = Some (JObj rof) \<and> \<not> truthy (dict_get rof ''single'' JNull)")
    case False
    then have "fix_melee_rof d = d"
      by (auto simp: fix_melee_rof_def split: option.splits json.splits)
    then show ?thesis by simp
  next
    case T: True
    then obtain rof where r: "map_of d ''rof'' = Some (JObj rof)"
      "\<not> truthy (dict_get rof ''single'' JNull)" by blast
    have f: "fix_melee_rof d = dict_set d ''rof'' (JObj (dict_set rof ''single'' (JBool True)))"
      using True r by (simp add: fix_melee_rof_def)
    have "map_of (fix_melee_rof d) ''rof'' = Some (JObj (dict_set rof ''single'' (JBool True)))"
      by (simp add: f)
    moreover have "truthy (dict_get (dict_set rof ''single'' (JBool True)) ''single'' JNull)"
      by (simp add: dict_get_def)
    ultimately show ?thesis using c
      by (simp add: fix_melee_rof_def [of "fix_melee_rof d"])
  qed
qed

lemma fix_melee_rof_single:
  assumes "dict_get (fix_melee_rof d) ''class'' JNull = JStr ''melee''"
    and "map_of (fix_melee_rof d) ''rof'' = Some (JObj rof)"
  shows "truthy (dict_get rof ''single'' JNull)"
    and "map_of d ''rof'' = Some (JObj rof0) \<Longrightarrow> \<not> truthy (dict_get rof0 ''single'' JNull) \<Longrightarrow>
         map_of rof ''single'' = Some (JBool True)"
proof -
  have c: "dict_get d ''class'' JNull = JStr ''melee''"
    using assms(1) by (simp add: dict_get_def fix_melee_rof_other)
  show "truthy (dict_get rof ''single'' JNull)"
    using assms(2) c
    by (auto simp: fix_melee_rof_def dict_get_def split: option.splits json.splits if_splits)
  show "map_of d ''rof'' = Some (JObj rof0) \<Longrightarrow> \<not> truthy (dict_get rof0 ''single'' JNull) \<Longrightarrow>
         map_of rof ''single'' = Some (JBool True)"
    using assms(2) c
    by (auto simp: fix_melee_rof_def split: option.splits json.splits if_splits)
qed

lemma refactor_weapon_idem:
  assumes "refactor_weapon sys = Inr sys'"
  shows "refactor_weapon sys' = Inr sys'"
proof -
  from assms obtain d where d: "infer_load_type (weapon_defaults sys) = Inr d"
    and s: "sys' = fix_melee_rof d"
    by (auto simp: refactor_weapon_def split: sum.splits)
  have h: "dict_has d ''loadType''" "\<And>k. dict_has (weapon_defaults sys) k \<Longrightarrow> dict_has d k"
    using infer_load_type_has [OF d] by auto
  have w: "weapon_defaults sys' = sys'"
    unfolding s using weapon_defaults_has [of sys] h(2) by (intro weapon_defaults_fixed) simp_all
  have i: "infer_load_type sys' = Inr sys'"
    unfolding s using h(1) by (intro infer_load_type_fixed) simp
  show ?thesis
    by (simp add: refactor_weapon_def w i) (simp add: s fix_melee_rof_idem)
qed

lemma refactor_weapon_rof:
  assumes "refactor_weapon sys = Inr sys'"
  shows "\<exists>d. sys' = fix_melee_rof d \<and> map_of d ''rof'' = map_of sys ''rof''"
proof -
  from assms obtain d where d: "infer_load_type (weapon_defaults sys) = Inr d"
    and s: "sys' = fix_melee_rof d"
    by (auto simp: refactor_weapon_def split: sum.splits)
  have "map_of d ''rof'' = map_of sys ''rof''"
    using infer_load_type_other [OF d, of "''rof''"] weapon_defaults_other [of "''rof''" sys] by simp
  then show ?thesis using s by blast
qed

text \<open>
  Claim C9. The pair \<open>get_trait_rules_and_immunities\<close> returns does not depend on its
  \<open>rating\<close> argument: the argument is overwritten or kept and then never read. Every rule
  it returns either has no \<open>value\<close> or carries the placeholder string \<open>rating\<close> there.
\<close>

theorem trait_rules_independent_of_rating:
  "get_trait_rules_and_immunities name r1 = get_trait_rules_and_immunities name r2
   \<and> (\<forall>rule\<in>set (fst (get_trait_rules_and_immunities name r1)).
        field rule ''value'' = None \<or> field rule ''value'' = Some (JStr ''rating''))"
proof
  show "get_trait_rules_and_immunities name r1 = get_trait_rules_and_immunities name r2"
    by (simp add: get_trait_rules_and_immunities_def Let_def)
  show "\<forall>rule\<in>set (fst (get_trait_rules_and_immunities name r1)).
        field rule ''value'' = None \<or> field rule ''value'' = Some (JStr ''rating'')"
    by (simp add: get_trait_rules_and_immunities_def Let_def field_def roll_option_def
        flat_modifier_def adjust_toughness_def resistance_def)
qed

theorem trait_rules_independent_of_rating_witness:
  "get_trait_rules_and_immunities ''Daemonic (2)'' (JNum 7) =
     get_trait_rules_and_immunities ''Daemonic (2)'' JNull
   \<and> adjust_toughness \<in> set (fst (get_trait_rules_and_immunities ''Daemonic (2)'' (JNum 7)))
   \<and> field adjust_toughness ''value'' = Some (JStr ''rating'')"
proof -
  have p: "parse_trait_name ''Daemonic (2)'' = (''Daemonic'', 2)"
    by (simp add: parse_trait_name_def match_num_def open_group_def digits_close_def text_eval)
  have m: "adjust_toughness \<in> set (fst (get_trait_rules_and_immunities ''Daemonic (2)'' (JNum 7)))"
    by (simp add: get_trait_rules_and_immunities_def p)
  have v: "field adjust_toughness ''value'' \<noteq> None"
    by (simp add: adjust_toughness_def field_def)
  note inst = trait_rules_independent_of_rating [of "''Daemonic (2)''" "JNum 7" JNull]
  have e: "get_trait_rules_and_immunities ''Daemonic (2)'' (JNum 7) =
     get_trait_rules_and_immunities ''Daemonic (2)'' JNull"
    using inst by (rule conjunct1)
  have "field adjust_toughness ''value'' = None \<or> field adjust_toughness ''value'' = Some (JStr ''rating'')"
    using inst [THEN conjunct2, THEN bspec, OF m] .
  then have "field adjust_toughness ''value'' = Some (JStr ''rating'')"
    using v by fastforce
  then show ?thesis using e m by (intro conjI)
qed

text \<open>
  Claim C10, as the code has it. After \<open>refactor_weapon\<close> has returned, a weapon whose
  class is \<open>melee\<close> and whose \<open>rof\<close> is a mapping has a \<open>rof["single"]\<close> that Python
  counts as true; it is the boolean \<open>true\<close> whenever the value was missing or counted as
  false before the call, and hence whenever it is a boolean at all. A value that already
  counted as true is left as it is. Applying \<open>refactor_weapon\<close> again returns the same
  mapping.
\<close>

theorem refactor_weapon_melee_single:
  "refactor_weapon sys = Inr sys' \<and> dict_get sys' ''class'' JNull = JStr ''melee'' \<and>
   map_of sys' ''rof'' = Some (JObj rof) \<longrightarrow>
     truthy (dict_get rof ''single'' JNull)
     \<and> (dict_get rof ''single'' JNull = JBool b \<longrightarrow> b)
     \<and> (map_of sys ''rof'' = Some (JObj rof0) \<and> \<not> truthy (dict_get rof0 ''single'' JNull) \<longrightarrow>
          map_of rof ''single'' = Some (JBool True))
     \<and> refactor_weapon sys' = Inr sys'"
proof (intro impI)
  assume a: "refactor_weapon sys = Inr sys' \<and> dict_get sys' ''class'' JNull = JStr ''melee'' \<and>
   map_of sys' ''rof'' = Some (JObj rof)"
  then obtain d where d: "sys' = fix_melee_rof d" "map_of d ''rof'' = map_of sys ''rof''"
    using refactor_weapon_rof by blast
  have t: "truthy (dict_get rof ''single'' JNull)"
    using fix_melee_rof_single(1) [of d rof] a d by simp
  have s: "map_of sys ''rof'' = Some (JObj rof0) \<and> \<not> truthy (dict_get rof0 ''single'' JNull) \<longrightarrow>
          map_of rof ''single'' = Some (JBool True)"
    using fix_melee_rof_single(2) [of d rof rof0] a d by simp
  have i: "refactor_weapon sys' = Inr sys'"
    using refactor_weapon_idem a by blast
  show "truthy (dict_get rof ''single'' JNull)
     \<and> (dict_get rof ''single'' JNull = JBool b \<longrightarrow> b)
     \<and> (map_of sys ''rof'' = Some (JObj rof0) \<and> \<not> truthy (dict_get rof0 ''single'' JNull) \<longrightarrow>
          map_of rof ''single'' = Some (JBool True))
     \<and> refactor_weapon sys' = Inr sys'"
    using t s i by auto
qed

theorem refactor_weapon_melee_single_witness:
  "refactor_weapon melee_weapon_in = Inr melee_weapon_out
   \<and> truthy (dict_get [(''single'', JBool True), (''semi'', JNum 0), (''full'', JNum 0)] ''single'' JNull)
   \<and> map_of [(''single'', JBool True), (''semi'', JNum 0), (''full'', JNum 0)] ''single'' = Some (JBool True)
   \<and> refactor_weapon melee_weapon_out = Inr melee_weapon_out"
proof -
  have r: "refactor_weapon melee_weapon_in = Inr melee_weapon_out"
    by code_simp
  have c: "dict_get melee_weapon_out ''class'' JNull = JStr ''melee''"
    by (simp add: melee_weapon_out_def dict_get_def)
  have f: "map_of melee_weapon_out ''rof'' =
      Some (JObj [(''single'', JBool True), (''semi'', JNum 0), (''full'', JNum 0)])"
    by (simp add: melee_weapon_out_def)
  have f0: "map_of melee_weapon_in ''rof'' =
      Some (JObj [(''single'', JBool False), (''semi'', JNum 0), (''full'', JNum 0)])"
    "\<not> truthy (dict_get [(''single'', JBool False), (''semi'', JNum 0), (''full'', JNum 0)] ''single'' JNull)"
    by (simp_all add: melee_weapon_in_def dict_get_def)
  show ?thesis
    using refactor_weapon_melee_single [of melee_weapon_in melee_weapon_out
        "[(''single'', JBool True), (''semi'', JNum 0), (''full'', JNum 0)]" True
        "[(''single'', JBool False), (''semi'', JNum 0), (''full'', JNum 0)]"] r c f f0
    by simp
qed

text \<open>
  The claim as the specification words it fails: a \<open>single\<close> that is the string \<open>S\<close>
  counts as true, is left alone, and is not equal to \<open>true\<close>.
\<close>

theorem refactor_weapon_single_counterexample:
  "refactor_weapon melee_weapon_S =
     Inr [(''class'', JStr ''melee''),
          (''rof'', JObj [(''single'', JStr ''S'')]),
          (''magazine'', JObj [(''value'', JNum 0), (''max'', JNum 0)]),
          (''craftsmanship'', JStr ''common''), (''weaponGroup'', JStr []),
          (''loadedAmmoId'', JStr []), (''loadedMagazineName'', JStr []),
          (''loadedRounds'', JArr []), (''reloadProgress'', JNum 0),
          (''rules'', JArr []), (''loadType'', JStr [])]
   \<and> dict_get [(''single'', JStr ''S'')] ''single'' JNull \<noteq> JBool True"
  by code_simp

subsection \<open>Properties of fix-actor-data.py\<close>

text \<open>
  Claim C4, as the code has it. \<open>fix_actor_armour\<close> reads the first embedded armour item
  when the actor has one: the result is the per-location mapping of that item's \<open>ap\<close>
  (of its \<open>locations\<close> when it has no \<open>ap\<close>), 0 for a location the item does not name,
  whatever the actor's own armour holds. For an actor whose items hold no armour item, a
  legacy armour \<open>{"value": X}\<close> becomes the mapping with \<open>X\<close> at every location.
\<close>

theorem fix_actor_armour_restructure:
  "(dict_get actor ''items'' (JArr []) = JArr items \<and> (\<forall>i\<in>set items. \<not> is_armour_item i) \<and>
    dict_get actor ''system'' (JObj []) = JObj s \<and> dict_get s ''armour'' (JObj []) = JObj old \<and>
    map_of old ''value'' = Some x \<longrightarrow>
      fix_actor_armour actor = Inr (uniform_armour x))
   \<and> (dict_get actor ''items'' (JArr []) = JArr (pre @ JObj item # post) \<and>
      (\<forall>i\<in>set pre. \<not> is_armour_item i) \<and> dict_get item ''type'' JNull = JStr ''armour'' \<and>
      dict_get item ''system'' (JObj []) = JObj sd \<and>
      dict_get sd ''ap'' (dict_get sd ''locations'' (JObj [])) = JObj locs \<longrightarrow>
      fix_actor_armour actor = Inr (locations locs))"
proof (intro conjI impI)
  assume a: "dict_get actor ''items'' (JArr []) = JArr items \<and> (\<forall>i\<in>set items. \<not> is_armour_item i) \<and>
    dict_get actor ''system'' (JObj []) = JObj s \<and> dict_get s ''armour'' (JObj []) = JObj old \<and>
    map_of old ''value'' = Some x"
  then have f: "find is_armour_item items = None"
    by (simp add: find_None_iff)
  show "fix_actor_armour actor = Inr (uniform_armour x)"
    using a f by (simp add: fix_actor_armour_def iter_json_def dict_has_def) (simp add: dict_get_def)
next
  assume a: "dict_get actor ''items'' (JArr []) = JArr (pre @ JObj item # post) \<and>
      (\<forall>i\<in>set pre. \<not> is_armour_item i) \<and> dict_get item ''type'' JNull = JStr ''armour'' \<and>
      dict_get item ''system'' (JObj []) = JObj sd \<and>
      dict_get sd ''ap'' (dict_get sd ''locations'' (JObj [])) = JObj locs"
  have p: "is_armour_item (JObj item)" using a by (simp add: is_armour_item_def)
  have np: "\<forall>i\<in>set pre. \<not> is_armour_item i" using a by blast
  have f: "find is_armour_item (pre @ JObj item # post) = Some (JObj item)"
    using np p by (induction pre) auto
  show "fix_actor_armour actor = Inr (locations locs)"
    using a f by (simp add: fix_actor_armour_def iter_json_def item_locations_def)
qed

theorem fix_actor_armour_restructure_witness:
  "fix_actor_armour plain_actor =
     Inr (JObj [(''head'', JNum 3), (''rightArm'', JNum 3), (''leftArm'', JNum 3),
                (''body'', JNum 3), (''rightLeg'', JNum 3), (''leftLeg'', JNum 3)])
   \<and> fix_actor_armour armoured_actor =
     Inr (JObj [(''head'', JNum 0), (''rightArm'', JNum 0), (''leftArm'', JNum 0),
                (''body'', JNum 4), (''rightLeg'', JNum 0), (''leftLeg'', JNum 0)])"
proof -
  have 1: "fix_actor_armour plain_actor = Inr (uniform_armour (JNum 3))"
    using fix_actor_armour_restructure [where actor = plain_actor and items = "[]"
        and s = "[(''armour'', JObj [(''value'', JNum 3)])]" and old = "[(''value'', JNum 3)]"
        and x = "JNum 3"]
    by (simp add: plain_actor_def dict_get_def)
  have 2: "fix_actor_armour armoured_actor = Inr (locations [(''body'', JNum 4)])"
    using fix_actor_armour_restructure [where actor = armoured_actor and pre = "[]" and post = "[]"
        and item = "[(''name'', JStr ''Flak Vest''), (''type'', JStr ''armour''),
                              (''system'', JObj [(''ap'', JObj [(''body'', JNum 4)])])]"
        and sd = "[(''ap'', JObj [(''body'', JNum 4)])]" and locs = "[(''body'', JNum 4)]"]
    by (simp add: armoured_actor_def dict_get_def)
  show ?thesis
    using 1 2 by (simp add: uniform_armour_def locations_def dict_get_def)
qed

text \<open>
  The claim as the specification words it fails twice. With an embedded armour item the
  legacy value is not used; and, with no armour item, an armour that already has the
  per-location shape comes back as zeros.
\<close>

theorem fix_actor_armour_counterexample:
  "fix_actor_armour armoured_actor =
     Inr (JObj [(''head'', JNum 0), (''rightArm'', JNum 0), (''leftArm'', JNum 0),
                (''body'', JNum 4), (''rightLeg'', JNum 0), (''leftLeg'', JNum 0)])
   \<and> fix_actor_armour armoured_actor \<noteq> Inr (uniform_armour (JNum 3))
   \<and> fix_actor_armour migrated_actor =
     Inr (JObj [(''head'', JNum 0), (''rightArm'', JNum 0), (''leftArm'', JNum 0),
                (''body'', JNum 0), (''rightLeg'', JNum 0), (''leftLeg'', JNum 0)])
   \<and> fix_actor_armour migrated_actor \<noteq> Inr (dict_get [(''armour'', JObj [(''head'', JNum 3), (''rightArm'', JNum 3),
          (''leftArm'', JNum 3), (''body'', JNum 3), (''rightLeg'', JNum 3), (''leftLeg'', JNum 3)])] ''armour'' JNull)"
  by code_simp

text \<open>
  Claim C1. The claim is that a second application of the migration leaves the output of
  the first unchanged. \<open>fix_actor\<close> does not: run on an actor it has already processed,
  it finds neither \<open>notes\<close> nor \<open>threatRating\<close> (both were popped) and no \<open>value\<close> in
  the armour, so the notes it had combined are replaced by the description alone, the
  role is emptied and the armour is zeroed.
\<close>

theorem fix_actor_twice_differs:
  "fix_actor cultist = Inr cultist_once
   \<and> fix_actor cultist_once = Inr cultist_twice
   \<and> cultist_twice \<noteq> cultist_once"
  by code_simp

subsection \<open>Properties of process_actor\<close>

lemma item_type_builders [simp]:
  "item_type (skill_item i n l a s sp) = JStr ''skill''"
  "item_type (fst (make_talent e c)) = JStr ''talent''"
  "item_type (fst (make_trait e d c)) = JStr ''trait''"
  "item_type (fst (make_power n de di ac r su f c)) = JStr ''power''"
  by (simp_all add: item_type_def field_def skill_item_def make_talent_def make_trait_def
      make_power_def Let_def split_beta)

lemma regenerated_builders [simp]:
  "regenerated (skill_item i n l a s sp)"
  "regenerated (fst (make_talent e c))"
  "regenerated (fst (make_trait e d c))"
  "regenerated (fst (make_power n de di ac r su f c))"
  by (simp_all add: regenerated_def)

lemma skill_specs_regenerated:
  "x \<in> set (fst (skill_specs b a specs c)) \<Longrightarrow> regenerated x"
  by (induction specs arbitrary: c) (auto simp: Let_def split_beta)

lemma make_skill_regenerated: "x \<in> set (fst (make_skill e c)) \<Longrightarrow> regenerated x"
  by (auto simp: make_skill_def Let_def split_beta skill_specs_regenerated
      split: option.splits if_splits)

lemma skills_loop_regenerated: "x \<in> set (fst (skills_loop es c)) \<Longrightarrow> regenerated x"
  by (induction es arbitrary: c) (auto simp: Let_def split_beta make_skill_regenerated)

lemma talents_loop_regenerated: "x \<in> set (fst (talents_loop es c)) \<Longrightarrow> regenerated x"
  by (induction es arbitrary: c) (auto simp: Let_def split_beta)

lemma traits_loop_regenerated: "x \<in> set (fst (traits_loop es c)) \<Longrightarrow> regenerated x"
  by (induction es arbitrary: c) (auto simp: Let_def split_beta)

lemma powers_loop_regenerated: "x \<in> set (fst (powers_loop ps c)) \<Longrightarrow> regenerated x"
  by (induction ps arbitrary: c) (auto simp: Let_def split_beta)

lemma special_traits_regenerated:
  "\<forall>x\<in>set acc. regenerated x \<Longrightarrow> x \<in> set (fst (special_traits sas acc c)) \<Longrightarrow> regenerated x"
proof (induction sas arbitrary: acc c)
  case Nil
  then show ?case by simp
next
  case (Cons sa sas)
  show ?case
  proof (cases "already_trait acc (fst sa)")
    case True
    then show ?thesis using Cons by simp
  next
    case False
    have "\<forall>x\<in>set (acc @ [fst (make_trait (fst sa) (snd sa) c)]). regenerated x"
      using Cons(2) by simp
    then show ?thesis
      using Cons(1) [of "acc @ [fst (make_trait (fst sa) (snd sa) c)]" "snd (make_trait (fst sa) (snd sa) c)"]
        Cons(3) False
      by (simp add: split_beta)
  qed
qed

lemma build_items_regenerated:
  "x \<in> set (fst (build_items sk ta tr sa pw c)) \<Longrightarrow> regenerated x"
proof -
  assume x: "x \<in> set (fst (build_items sk ta tr sa pw c))"
  let ?s = "skills_loop sk c"
  let ?t = "talents_loop ta (snd ?s)"
  let ?r = "traits_loop tr (snd ?t)"
  let ?w = "special_traits sa (fst ?s @ fst ?t @ fst ?r) (snd ?r)"
  let ?p = "powers_loop pw (snd ?w)"
  have b: "fst (build_items sk ta tr sa pw c) = fst ?w @ fst ?p"
    by (simp add: build_items_def Let_def split_beta)
  have "\<forall>y\<in>set (fst ?s @ fst ?t @ fst ?r). regenerated y"
    using skills_loop_regenerated talents_loop_regenerated traits_loop_regenerated by auto
  then have "\<forall>y\<in>set (fst ?w). regenerated y"
    using special_traits_regenerated by blast
  then show ?thesis using x b powers_loop_regenerated by auto
qed

lemma derive_items_regenerated: "x \<in> set (fst (derive_items notes c)) \<Longrightarrow> regenerated x"
  unfolding derive_items_def by (rule build_items_regenerated)

lemma keep_items_filter:
  "keep_items xs = Inr kept \<Longrightarrow> kept = filter (\<lambda>i. \<not> regenerated i) xs \<and> (\<forall>i\<in>set xs. item_ok i)"
proof (induction xs arbitrary: kept)
  case Nil
  then show ?case by simp
next
  case (Cons i xs)
  from Cons(2) obtain k where k: "keep_items xs = Inr k" and ok: "item_ok i"
    and kept: "kept = (if regenerated i then k else i # k)"
    by (auto simp: item_ok_def split: json.splits sum.splits)
  from Cons(1) [OF k] show ?case using ok kept by simp
qed

lemma keep_items_ok:
  "\<forall>i\<in>set xs. item_ok i \<Longrightarrow> keep_items xs = Inr (filter (\<lambda>i. \<not> regenerated i) xs)"
proof (induction xs)
  case Nil
  then show ?case by simp
next
  case (Cons i xs)
  then have t: "keep_items xs = Inr (filter (\<lambda>i. \<not> regenerated i) xs)" and ok: "item_ok i"
    by simp_all
  show ?case using ok by (auto simp: t item_ok_def split: json.splits)
qed

lemma regenerated_ok_builders:
  "item_ok (skill_item i n l a s sp)"
  "item_ok (fst (make_talent e c))"
  "item_ok (fst (make_trait e d c))"
  "item_ok (fst (make_power n de di ac r su f c))"
  by (simp_all add: item_ok_def) (simp_all add: skill_item_def make_talent_def make_trait_def
      make_power_def Let_def split_beta)

lemma skill_specs_ok: "x \<in> set (fst (skill_specs b a specs c)) \<Longrightarrow> item_ok x"
  by (induction specs arbitrary: c) (auto simp: Let_def split_beta regenerated_ok_builders)

lemma make_skill_ok: "x \<in> set (fst (make_skill e c)) \<Longrightarrow> item_ok x"
  by (auto simp: make_skill_def Let_def split_beta skill_specs_ok regenerated_ok_builders
      split: option.splits if_splits)

lemma skills_loop_ok: "x \<in> set (fst (skills_loop es c)) \<Longrightarrow> item_ok x"
  by (induction es arbitrary: c) (auto simp: Let_def split_beta make_skill_ok)

lemma talents_loop_ok: "x \<in> set (fst (talents_loop es c)) \<Longrightarrow> item_ok x"
  by (induction es arbitrary: c) (auto simp: Let_def split_beta regenerated_ok_builders)

lemma traits_loop_ok: "x \<in> set (fst (traits_loop es c)) \<Longrightarrow> item_ok x"
  by (induction es arbitrary: c) (auto simp: Let_def split_beta regenerated_ok_builders)

lemma powers_loop_ok: "x \<in> set (fst (powers_loop ps c)) \<Longrightarrow> item_ok x"
  by (induction ps arbitrary: c) (auto simp: Let_def split_beta regenerated_ok_builders)

lemma special_traits_ok:
  "\<forall>x\<in>set acc. item_ok x \<Longrightarrow> x \<in> set (fst (special_traits sas acc c)) \<Longrightarrow> item_ok x"
proof (induction sas arbitrary: acc c)
  case Nil
  then show ?case by simp
next
  case (Cons sa sas)
  show ?case
  proof (cases "already_trait acc (fst sa)")
    case True
    then show ?thesis using Cons by simp
  next
    case False
    have "\<forall>x\<in>set (acc @ [fst (make_trait (fst sa) (snd sa) c)]). item_ok x"
      using Cons(2) by (simp add: regenerated_ok_builders)
    then show ?thesis
      using Cons(1) [of "acc @ [fst (make_trait (fst sa) (snd sa) c)]" "snd (make_trait (fst sa) (snd sa) c)"]
        Cons(3) False
      by (simp add: split_beta)
  qed
qed

lemma derive_items_ok: "x \<in> set (fst (derive_items notes c)) \<Longrightarrow> item_ok x"
proof -
  assume x: "x \<in> set (fst (derive_items notes c))"
  let ?sk = "extract_section notes ''SKILLS''" and ?ta = "extract_section notes ''TALENTS''"
  let ?tr = "extract_section notes ''TRAITS''"
  let ?s = "skills_loop ?sk c"
  let ?t = "talents_loop ?ta (snd ?s)"
  let ?r = "traits_loop ?tr (snd ?t)"
  let ?w = "special_traits (extract_special_abilities notes) (fst ?s @ fst ?t @ fst ?r) (snd ?r)"
  let ?p = "powers_loop (extract_psychic_powers notes) (snd ?w)"
  have b: "fst (derive_items notes c) = fst ?w @ fst ?p"
    by (simp add: derive_items_def build_items_def Let_def split_beta)
  have "\<forall>y\<in>set (fst ?s @ fst ?t @ fst ?r). item_ok y"
    using skills_loop_ok talents_loop_ok traits_loop_ok by auto
  then have "\<forall>y\<in>set (fst ?w). item_ok y"
    using special_traits_ok by blast
  then show ?thesis using x b powers_loop_ok by auto
qed

lemma filter_regenerated_append:
  assumes "\<forall>x\<in>set new. regenerated x"
  shows "filter regenerated (filter (\<lambda>i. \<not> regenerated i) xs @ new) = new"
    and "filter (\<lambda>i. \<not> regenerated i) (filter (\<lambda>i. \<not> regenerated i) xs @ new) =
           filter (\<lambda>i. \<not> regenerated i) xs"
  using assms by (simp_all add: filter_id_conv filter_empty_conv)

lemma set_details_notes_result:
  "set_details_notes a f = Inr a1 \<Longrightarrow>
   \<exists>s d. map_of a1 ''system'' = Some (JObj s) \<and> map_of s ''details'' = Some (JObj d) \<and>
         map_of d ''notes'' = Some (JStr f) \<and> map_of a1 ''items'' = map_of a ''items''"
  by (auto simp: set_details_notes_def split: option.splits json.splits)

lemma set_details_notes_fixed:
  "map_of a ''system'' = Some (JObj s) \<Longrightarrow> map_of s ''details'' = Some (JObj d) \<Longrightarrow>
   map_of d ''notes'' = Some (JStr f) \<Longrightarrow> set_details_notes a f = Inr a"
  by (simp add: set_details_notes_def dict_set_same)

lemma iter_keep_items:
  assumes "iter_json v = Inr its" "keep_items its = Inr kept"
  shows "kept = filter (\<lambda>i. \<not> regenerated i) (case v of JArr xs \<Rightarrow> xs | _ \<Rightarrow> [])"
proof (cases v)
  case (JArr xs)
  then show ?thesis using assms keep_items_filter by (auto simp: iter_json_def)
next
  case (JObj d)
  then have "its = map (\<lambda>kv. JStr (fst kv)) d" using assms by (simp add: iter_json_def)
  moreover have "\<forall>i\<in>set its. item_ok i" using keep_items_filter [OF assms(2)] by simp
  ultimately have "d = []" by (cases d) (auto simp: item_ok_def)
  then show ?thesis using assms JObj by (simp add: iter_json_def)
next
  case (JStr s)
  then have "its = map (\<lambda>c. JStr [c]) s" using assms by (simp add: iter_json_def)
  moreover have "\<forall>i\<in>set its. item_ok i" using keep_items_filter [OF assms(2)] by simp
  ultimately have "s = []" by (cases s) (auto simp: item_ok_def)
  then show ?thesis using assms JStr by (simp add: iter_json_def)
qed (use assms in \<open>auto simp: iter_json_def\<close>)

lemma replace_items_result:
  assumes "replace_items a new = Inr a'"
  shows "a' = dict_set (if \<not> dict_has a ''items'' then dict_set a ''items'' (JArr []) else a) ''items''
           (JArr (filter (\<lambda>i. \<not> regenerated i) (actor_items (JObj a)) @ new))"
    and "\<forall>i\<in>set (actor_items (JObj a)). item_ok i"
proof -
  let ?a1 = "if \<not> dict_has a ''items'' then dict_set a ''items'' (JArr []) else a"
  from assms obtain its kept where i: "iter_json (dict_get ?a1 ''items'' JNull) = Inr its"
    and k: "keep_items its = Inr kept" and r: "a' = dict_set ?a1 ''items'' (JArr (kept @ new))"
    by (auto simp: replace_items_def Let_def split: sum.splits)
  have v: "(case dict_get ?a1 ''items'' JNull of JArr xs \<Rightarrow> xs | _ \<Rightarrow> []) = actor_items (JObj a)"
    by (auto simp: actor_items_def field_def dict_get_def dict_has_def split: option.splits)
  show "a' = dict_set ?a1 ''items''
           (JArr (filter (\<lambda>i. \<not> regenerated i) (actor_items (JObj a)) @ new))"
    using iter_keep_items [OF i k] r v by simp
  show "\<forall>i\<in>set (actor_items (JObj a)). item_ok i"
  proof (cases "dict_get ?a1 ''items'' JNull")
    case (JArr xs)
    then have "its = xs" using i by (simp add: iter_json_def)
    then show ?thesis using keep_items_filter [OF k] v JArr by simp
  next
    case JNull
    then show ?thesis using v by simp
  next
    case (JBool x)
    then show ?thesis using v by simp
  next
    case (JNum x)
    then show ?thesis using v by simp
  next
    case (JStr x)
    then show ?thesis using v by simp
  next
    case (JObj x)
    then show ?thesis using v by simp
  qed
qed

lemma replace_items_ok:
  assumes "map_of a ''items'' = Some (JArr xs)" "\<forall>i\<in>set xs. item_ok i"
  shows "replace_items a new =
     Inr (dict_set a ''items'' (JArr (filter (\<lambda>i. \<not> regenerated i) xs @ new)))"
  using assms by (simp add: replace_items_def dict_has_def dict_get_def iter_json_def keep_items_ok)

lemma actor_items_dict_set [simp]: "actor_items (JObj (dict_set a ''items'' (JArr xs))) = xs"
  by (simp add: actor_items_def field_def)

lemma drop_id_builders:
  "drop_id (skill_item i n l a s sp) = drop_id (skill_item i' n l a s sp)"
  "drop_id (fst (make_talent e c)) = drop_id (fst (make_talent e c'))"
  "drop_id (fst (make_trait e d c)) = drop_id (fst (make_trait e d c'))"
  "drop_id (fst (make_power n de di ac r su f c)) = drop_id (fst (make_power n de di ac r su f c'))"
  by (simp_all add: drop_id_def dict_pop_def skill_item_def make_talent_def make_trait_def
      make_power_def Let_def split_beta)

lemma skill_specs_drop_id:
  "map drop_id (fst (skill_specs b a specs c)) = map drop_id (fst (skill_specs b a specs c'))"
  by (induction specs arbitrary: c c') (auto simp: Let_def split_beta intro: drop_id_builders)

lemma make_skill_drop_id:
  "map drop_id (fst (make_skill e c)) = map drop_id (fst (make_skill e c'))"
  using skill_specs_drop_id drop_id_builders(1)
  by (auto simp: make_skill_def Let_def split_beta split: option.splits)

lemma skills_loop_drop_id:
  "map drop_id (fst (skills_loop es c)) = map drop_id (fst (skills_loop es c'))"
proof (induction es arbitrary: c c')
  case Nil
  then show ?case by simp
next
  case (Cons e es)
  show ?case
    using make_skill_drop_id [of e c c']
      Cons [of "snd (make_skill e c)" "snd (make_skill e c')"]
    by (simp add: Let_def split_beta)
qed

lemma talents_loop_drop_id:
  "map drop_id (fst (talents_loop es c)) = map drop_id (fst (talents_loop es c'))"
proof (induction es arbitrary: c c')
  case Nil
  then show ?case by simp
next
  case (Cons e es)
  show ?case
    using drop_id_builders(2) [of e c c']
      Cons [of "snd (make_talent e c)" "snd (make_talent e c')"]
    by (simp add: Let_def split_beta)
qed

lemma traits_loop_drop_id:
  "map drop_id (fst (traits_loop es c)) = map drop_id (fst (traits_loop es c'))"
proof (induction es arbitrary: c c')
  case Nil
  then show ?case by simp
next
  case (Cons e es)
  show ?case
    using drop_id_builders(3) [of e "[]" c c']
      Cons [of "snd (make_trait e [] c)" "snd (make_trait e [] c')"]
    by (simp add: Let_def split_beta)
qed

lemma powers_loop_drop_id:
  "map drop_id (fst (powers_loop ps c)) = map drop_id (fst (powers_loop ps c'))"
proof (induction ps arbitrary: c c')
  case Nil
  then show ?case by simp
next
  case (Cons p ps)
  show ?case
    using drop_id_builders(4) Cons
    by (simp add: Let_def split_beta)
qed

lemma drop_id_type_name [simp]:
  "item_type (drop_id i) = item_type i" "item_name (drop_id i) = item_name i"
  by (auto simp: drop_id_def item_type_def item_name_def field_def dict_pop_def delete_conv'
      split: json.splits)

lemma already_trait_drop_id:
  "map drop_id xs = map drop_id ys \<Longrightarrow> already_trait xs n = already_trait ys n"
proof -
  assume m: "map drop_id xs = map drop_id ys"
  let ?P = "\<lambda>item. item_type item = JStr ''trait'' \<and> name_base (item_name item) = name_base n"
  have e: "list_ex ?P zs = list_ex ?P (map drop_id zs)" for zs
    by (induction zs) simp_all
  have "list_ex ?P xs = list_ex ?P (map drop_id xs)" by (rule e)
  also have "\<dots> = list_ex ?P (map drop_id ys)" by (simp only: m)
  also have "\<dots> = list_ex ?P ys" by (rule e [symmetric])
  finally show ?thesis by (simp only: already_trait_def)
qed

lemma special_traits_drop_id:
  "map drop_id acc = map drop_id acc' \<Longrightarrow>
   map drop_id (fst (special_traits sas acc c)) = map drop_id (fst (special_traits sas acc' c'))"
proof (induction sas arbitrary: acc acc' c c')
  case Nil
  then show ?case by simp
next
  case (Cons sa sas)
  have al: "already_trait acc (fst sa) = already_trait acc' (fst sa)"
    using Cons(2) by (rule already_trait_drop_id)
  show ?case
  proof (cases "already_trait acc (fst sa)")
    case True
    then show ?thesis using al Cons by simp
  next
    case False
    have "map drop_id (acc @ [fst (make_trait (fst sa) (snd sa) c)]) =
          map drop_id (acc' @ [fst (make_trait (fst sa) (snd sa) c')])"
      using Cons(2) drop_id_builders(3) [of "fst sa" "snd sa" c c'] by simp
    then show ?thesis
      using False al Cons(1) by (simp add: split_beta)
  qed
qed

lemma derive_items_drop_id:
  "map drop_id (fst (derive_items notes c)) = map drop_id (fst (derive_items notes c'))"
proof -
  let ?sk = "extract_section notes ''SKILLS''" and ?ta = "extract_section notes ''TALENTS''"
  let ?tr = "extract_section notes ''TRAITS''"
  let ?sa = "extract_special_abilities notes" and ?pw = "extract_psychic_powers notes"
  have b: "fst (derive_items notes k) =
      fst (special_traits ?sa
             (fst (skills_loop ?sk k) @ fst (talents_loop ?ta (snd (skills_loop ?sk k)))
               @ fst (traits_loop ?tr (snd (talents_loop ?ta (snd (skills_loop ?sk k))))))
             (snd (traits_loop ?tr (snd (talents_loop ?ta (snd (skills_loop ?sk k)))))))
      @ fst (powers_loop ?pw (snd (special_traits ?sa
             (fst (skills_loop ?sk k) @ fst (talents_loop ?ta (snd (skills_loop ?sk k)))
               @ fst (traits_loop ?tr (snd (talents_loop ?ta (snd (skills_loop ?sk k))))))
             (snd (traits_loop ?tr (snd (talents_loop ?ta (snd (skills_loop ?sk k)))))))))" for k
    by (simp add: derive_items_def build_items_def Let_def split_beta)
  have pre: "map drop_id (fst (skills_loop ?sk c) @ fst (talents_loop ?ta (snd (skills_loop ?sk c)))
               @ fst (traits_loop ?tr (snd (talents_loop ?ta (snd (skills_loop ?sk c)))))) =
             map drop_id (fst (skills_loop ?sk c') @ fst (talents_loop ?ta (snd (skills_loop ?sk c')))
               @ fst (traits_loop ?tr (snd (talents_loop ?ta (snd (skills_loop ?sk c'))))))"
    using skills_loop_drop_id [of ?sk c c']
      talents_loop_drop_id [of ?ta "snd (skills_loop ?sk c)" "snd (skills_loop ?sk c')"]
      traits_loop_drop_id [of ?tr "snd (talents_loop ?ta (snd (skills_loop ?sk c)))"
        "snd (talents_loop ?ta (snd (skills_loop ?sk c')))"]
    by simp
  show ?thesis
    unfolding b [of c] b [of c'] map_append
    using special_traits_drop_id [OF pre] powers_loop_drop_id by metis
qed

lemma process_actor_success:
  assumes p: "process_actor cur orig ctr = Inr (cur', n, ctr')" and n: "0 < n"
  shows "\<exists>cur_d orig_d full actor1 actor2.
     cur = JObj cur_d \<and> orig = JObj orig_d \<and> original_notes orig \<noteq> [] \<and>
     (\<exists>osys. dict_get orig_d ''system'' (JObj []) = JObj osys \<and>
         dict_get osys ''notes'' (JStr []) = JStr (original_notes orig)) \<and>
     build_notes orig_d = Inr full \<and> set_details_notes cur_d full = Inr actor1 \<and>
     fst (derive_items (original_notes orig) ctr) \<noteq> [] \<and>
     replace_items actor1 (fst (derive_items (original_notes orig) ctr)) = Inr actor2 \<and>
     cur' = JObj actor2 \<and> n = length (fst (derive_items (original_notes orig) ctr)) \<and>
     ctr' = snd (derive_items (original_notes orig) ctr)"
proof -
  from p obtain orig_d where o: "orig = JObj orig_d"
    by (cases orig) (simp_all add: process_actor_def)
  from p o obtain osys where os: "dict_get orig_d ''system'' (JObj []) = JObj osys"
    by (cases "dict_get orig_d ''system'' (JObj [])") (simp_all add: process_actor_def)
  from p o os obtain cur_d where c: "cur = JObj cur_d"
    by (cases cur) (simp_all add: process_actor_def)
  let ?on = "dict_get osys ''notes'' (JStr [])"
  have t: "truthy ?on"
    using p n o os c by (cases "truthy ?on") (simp_all add: process_actor_def)
  from p t o os c obtain full where f: "build_notes orig_d = Inr full"
    by (cases "build_notes orig_d") (simp_all add: process_actor_def)
  from p t o os c f obtain actor1 where a1: "set_details_notes cur_d full = Inr actor1"
    by (cases "set_details_notes cur_d full") (simp_all add: process_actor_def)
  from p t o os c f a1 obtain ntext where nt: "?on = JStr ntext"
    by (cases ?on) (simp_all add: process_actor_def)
  have ne: "ntext \<noteq> []" using t nt by simp
  have sys: "map_of orig_d ''system'' = Some (JObj osys)"
  proof (cases "map_of orig_d ''system''")
    case None
    then have "osys = []" using os by (simp add: dict_get_def)
    then show ?thesis using nt ne by (simp add: dict_get_def)
  next
    case (Some v)
    then show ?thesis using os by (simp add: dict_get_def)
  qed
  have nts: "map_of osys ''notes'' = Some (JStr ntext)"
    using nt ne by (cases "map_of osys ''notes''") (simp_all add: dict_get_def)
  have on: "original_notes orig = ntext"
    by (simp add: original_notes_def field_def o sys nts)
  let ?d = "derive_items ntext ctr"
  have p2: "(if fst ?d \<noteq> [] then
               (case replace_items actor1 (fst ?d) of Inl e \<Rightarrow> Inl e
                | Inr actor2 \<Rightarrow> Inr (JObj actor2, length (fst ?d), snd ?d))
             else Inr (JObj actor1, 0, snd ?d)) = Inr (cur', n, ctr')"
    using p t o os c f a1 nt by (simp add: process_actor_def split_beta)
  have dne: "fst ?d \<noteq> []" using p2 n by (cases "fst ?d = []") simp_all
  from p2 dne obtain actor2 where r: "replace_items actor1 (fst ?d) = Inr actor2"
    by (cases "replace_items actor1 (fst ?d)") simp_all
  have res: "cur' = JObj actor2" "n = length (fst ?d)" "ctr' = snd ?d"
    using p2 dne r by simp_all
  show ?thesis
    using o c on ne os nt f a1 dne r res by auto
qed

lemma process_actor_run:
  assumes "cur = JObj cur_d" "orig = JObj orig_d"
    "dict_get orig_d ''system'' (JObj []) = JObj osys"
    "dict_get osys ''notes'' (JStr []) = JStr ntext" "ntext \<noteq> []"
    "build_notes orig_d = Inr full" "set_details_notes cur_d full = Inr actor1"
    "fst (derive_items ntext ctr) \<noteq> []"
    "replace_items actor1 (fst (derive_items ntext ctr)) = Inr actor2"
  shows "process_actor cur orig ctr =
     Inr (JObj actor2, length (fst (derive_items ntext ctr)), snd (derive_items ntext ctr))"
  using assms by (simp add: process_actor_def split_beta)

text \<open>
  Claim C2, as the code has it. When the fresh extraction yields at least one record,
  \<open>process_actor\<close> leaves the actor with exactly the freshly derived records as its
  records of the regenerated kinds (skill, talent, trait, power), after the records of
  other kinds, which it keeps as they were. Running it again on the result succeeds,
  returns the same count and leaves the same records up to their fresh identifiers: none
  is duplicated.
\<close>

theorem process_actor_regenerate_then_replace:
  "process_actor cur orig ctr = Inr (cur', n, ctr') \<and> 0 < n \<longrightarrow>
     filter regenerated (actor_items cur') = fst (derive_items (original_notes orig) ctr)
     \<and> length (filter regenerated (actor_items cur')) = n
     \<and> filter (\<lambda>i. \<not> regenerated i) (actor_items cur') =
         filter (\<lambda>i. \<not> regenerated i) (actor_items cur)
     \<and> (\<exists>cur'' ctr''. process_actor cur' orig ctr' = Inr (cur'', n, ctr'')
          \<and> map drop_id (filter regenerated (actor_items cur'')) =
              map drop_id (filter regenerated (actor_items cur'))
          \<and> filter (\<lambda>i. \<not> regenerated i) (actor_items cur'') =
              filter (\<lambda>i. \<not> regenerated i) (actor_items cur'))"
proof
  assume a: "process_actor cur orig ctr = Inr (cur', n, ctr') \<and> 0 < n"
  let ?nt = "original_notes orig"
  let ?new = "fst (derive_items ?nt ctr)"
  let ?keep = "filter (\<lambda>i. \<not> regenerated i)"
  from process_actor_success [of cur orig ctr cur' n ctr'] a
  obtain cur_d orig_d full actor1 actor2 osys where
    c: "cur = JObj cur_d" and o: "orig = JObj orig_d" and ne: "?nt \<noteq> []"
    and os: "dict_get orig_d ''system'' (JObj []) = JObj osys"
    and on: "dict_get osys ''notes'' (JStr []) = JStr ?nt"
    and f: "build_notes orig_d = Inr full" and s1: "set_details_notes cur_d full = Inr actor1"
    and dne: "?new \<noteq> []" and r: "replace_items actor1 ?new = Inr actor2"
    and res: "cur' = JObj actor2" "n = length ?new" "ctr' = snd (derive_items ?nt ctr)"
    by blast
  have reg: "\<forall>x\<in>set ?new. regenerated x" using derive_items_regenerated by blast
  have it1: "actor_items (JObj actor1) = actor_items cur"
    using set_details_notes_result [OF s1] c by (auto simp: actor_items_def field_def)
  let ?a1 = "if \<not> dict_has actor1 ''items'' then dict_set actor1 ''items'' (JArr []) else actor1"
  have a2: "actor2 = dict_set ?a1 ''items'' (JArr (?keep (actor_items cur) @ ?new))"
    using replace_items_result(1) [OF r] it1 by simp
  have ok1: "\<forall>i\<in>set (actor_items cur). item_ok i"
    using replace_items_result(2) [OF r] it1 by simp
  have items': "actor_items cur' = ?keep (actor_items cur) @ ?new"
    unfolding res(1) a2 by (rule actor_items_dict_set)
  have g1: "filter regenerated (actor_items cur') = ?new"
    unfolding items' using reg by (rule filter_regenerated_append(1))
  have g2: "?keep (actor_items cur') = ?keep (actor_items cur)"
    unfolding items' using reg by (rule filter_regenerated_append(2))
  \<comment> \<open>the second run\<close>
  let ?new2 = "fst (derive_items ?nt ctr')"
  have d2: "map drop_id ?new2 = map drop_id ?new" by (rule derive_items_drop_id)
  then have "length ?new2 = length ?new" by (metis length_map)
  then have l2: "length ?new2 = n" and dne2: "?new2 \<noteq> []" using res(2) dne by auto
  have reg2: "\<forall>x\<in>set ?new2. regenerated x" using derive_items_regenerated by blast
  from set_details_notes_result [OF s1] obtain sy de where
    sy: "map_of actor1 ''system'' = Some (JObj sy)" "map_of sy ''details'' = Some (JObj de)"
      "map_of de ''notes'' = Some (JStr full)" by blast
  have sy2: "map_of actor2 ''system'' = Some (JObj sy)"
    unfolding a2 using sy(1) by simp
  have s2: "set_details_notes actor2 full = Inr actor2"
    using sy2 sy(2,3) by (rule set_details_notes_fixed)
  have m2: "map_of actor2 ''items'' = Some (JArr (?keep (actor_items cur) @ ?new))"
    unfolding a2 by simp
  have ok2: "\<forall>i\<in>set (?keep (actor_items cur) @ ?new). item_ok i"
    using ok1 derive_items_ok by auto
  have k2: "?keep (?keep (actor_items cur) @ ?new) = ?keep (actor_items cur)"
    using reg by (rule filter_regenerated_append(2))
  have r2: "replace_items actor2 ?new2 =
      Inr (dict_set actor2 ''items'' (JArr (?keep (actor_items cur) @ ?new2)))"
    using replace_items_ok [OF m2 ok2, of ?new2] k2 by simp
  let ?cur2 = "JObj (dict_set actor2 ''items'' (JArr (?keep (actor_items cur) @ ?new2)))"
  have run2: "process_actor cur' orig ctr' = Inr (?cur2, n, snd (derive_items ?nt ctr'))"
    using process_actor_run [OF res(1) o os on ne f s2 dne2 r2] l2 by simp
  have items2: "actor_items ?cur2 = ?keep (actor_items cur) @ ?new2"
    by (rule actor_items_dict_set)
  have h1: "filter regenerated (actor_items ?cur2) = ?new2"
    unfolding items2 using reg2 by (rule filter_regenerated_append(1))
  have h2: "?keep (actor_items ?cur2) = ?keep (actor_items cur)"
    unfolding items2 using reg2 by (rule filter_regenerated_append(2))
  have second: "\<exists>cur'' ctr''. process_actor cur' orig ctr' = Inr (cur'', n, ctr'')
          \<and> map drop_id (filter regenerated (actor_items cur'')) =
              map drop_id (filter regenerated (actor_items cur'))
          \<and> ?keep (actor_items cur'') = ?keep (actor_items cur')"
    using run2 h1 h2 g1 g2 d2 by (intro exI [of _ ?cur2] exI [of _ "snd (derive_items ?nt ctr')"]) simp
  show "filter regenerated (actor_items cur') = ?new
     \<and> length (filter regenerated (actor_items cur')) = n
     \<and> ?keep (actor_items cur') = ?keep (actor_items cur)
     \<and> (\<exists>cur'' ctr''. process_actor cur' orig ctr' = Inr (cur'', n, ctr'')
          \<and> map drop_id (filter regenerated (actor_items cur'')) =
              map drop_id (filter regenerated (actor_items cur'))
          \<and> ?keep (actor_items cur'') = ?keep (actor_items cur'))"
    using g1 g2 res(2) second by simp
qed

theorem process_actor_regenerate_then_replace_witness:
  "process_actor ghoul ghoul_original 0 = Inr (ghoul_after, 2, 2)
   \<and> length (filter regenerated (actor_items ghoul)) = 3
   \<and> length (filter regenerated (actor_items ghoul_after)) = 2
   \<and> filter (\<lambda>i. \<not> regenerated i) (actor_items ghoul_after) = [claw]"
proof -
  have run: "process_actor ghoul ghoul_original 0 = Inr (ghoul_after, 2, 2)"
    by code_simp
  have before: "length (filter regenerated (actor_items ghoul)) = 3"
    "filter (\<lambda>i. \<not> regenerated i) (actor_items ghoul) = [claw]"
    by code_simp+
  have pre: "process_actor ghoul ghoul_original 0 = Inr (ghoul_after, 2, 2) \<and> (0::nat) < 2"
    using run by simp
  note after = process_actor_regenerate_then_replace [of ghoul ghoul_original 0 ghoul_after 2 2,
      THEN mp, OF pre]
  have a1: "length (filter regenerated (actor_items ghoul_after)) = 2"
    using after by (elim conjE)
  have a2: "filter (\<lambda>i. \<not> regenerated i) (actor_items ghoul_after) = [claw]"
    using after before(2) by (elim conjE) (simp only:)
  show ?thesis
    using run before(1) a1 a2 by (intro conjI)
qed

text \<open>
  The claim as the specification words it fails when the fresh extraction is empty: the
  replacement stands under \<open>if new_items:\<close>, and the three trait records stay.
\<close>

theorem process_actor_empty_extraction_counterexample:
  "process_actor ghoul quiet_original 0 =
     Inr (JObj [(''name'', JStr ''Ghoul''),
                (''system'', JObj [(''details'',
                   JObj [(''notes'', JStr (NEWLINE # ''No listed abilities''))])]),
                (''items'', JArr [claw, old_trait ''Fear (1)'', old_trait ''Size (4)'',
                                  old_trait ''Undying''])], 0, 0)
   \<and> filter regenerated [claw, old_trait ''Fear (1)'', old_trait ''Size (4)'', old_trait ''Undying'']
       = [old_trait ''Fear (1)'', old_trait ''Size (4)'', old_trait ''Undying'']"
  by code_simp









end
